theory Spec2Isabelle
  imports Complex_Main "HOL-Library.AList" "HOL-Library.Code_Target_Numeral"
    "HOL-Library.Log_Nat"
begin

section \<open>Values, frames and errors\<close>

text \<open>
  A shallow embedding of the financial data parser: the dataset store of
  \<^verbatim>\<open>data_storage.py\<close>, the value normalizer of \<^verbatim>\<open>format_parser.py\<close> and the
  column classifier of \<^verbatim>\<open>type_detector.py\<close>.

  Python strings are modelled as \<^typ>\<open>string\<close>: lists of 8-bit characters, read as the
  code points 0..255 (Latin-1).  A cell of a stored dataset is a canonical value or
  null: a calendar date, a finite \<^verbatim>\<open>Decimal\<close> amount (sign, coefficient, exponent) or a
  text.
\<close>

datatype date = Date (year: nat) (month: nat) (day: nat)

datatype fdec = FDec (sign: bool) (coeff: nat) (expo: int)

datatype cell = Null | DateV date | NumV fdec | StrV string

text \<open>The exceptions the modelled code raises.  All are subclasses of \<^verbatim>\<open>Exception\<close>.
  \<open>DatasetNotFound n\<close> is \<^verbatim>\<open>ValueError(f"Dataset '{n}' not found.")\<close> and
  \<open>MissingColumns g m\<close> is
  \<^verbatim>\<open>ValueError(f"Missing columns: group_by={g}, measures={m}")\<close>; \<open>ValueError\<close> is the
  one that \<^verbatim>\<open>int\<close> and \<^verbatim>\<open>str\<close> raise on digits they refuse to convert.  \<open>DatabaseError m\<close>
  carries its message, and \<open>UnicodeEncodeError\<close> and \<open>OSError\<close> are what \<^verbatim>\<open>print\<close> raises
  when standard output cannot encode a message or cannot be written.\<close>

datatype py_error =
    DatasetNotFound string
  | MissingColumns "string list" "string list"
  | KeyError string
  | TypeError
  | DatabaseError string
  | ValueError
  | UnicodeEncodeError
  | OSError

text \<open>A pandas \<^verbatim>\<open>DataFrame\<close>: the index labels of its rows and its columns in order,
  each a name with one cell per row.\<close>

record frame =
  findex :: "nat list"
  fcols :: "(string \<times> cell list) list"

definition len_frame :: "frame \<Rightarrow> nat" where
  "len_frame df = length (findex df)"

definition columns :: "frame \<Rightarrow> string list" where
  "columns df = map fst (fcols df)"

text \<open>\<^verbatim>\<open>df[col]\<close>: raises \<^verbatim>\<open>KeyError\<close> for a name that is not a column.\<close>

definition getitem :: "frame \<Rightarrow> string \<Rightarrow> py_error + cell list" where
  "getitem df col = (case map_of (fcols df) col of None \<Rightarrow> Inl (KeyError col) | Some vs \<Rightarrow> Inr vs)"

text \<open>\<^verbatim>\<open>df.iloc[ids]\<close> for positions inside the frame, and
  \<^verbatim>\<open>pd.DataFrame(columns=df.columns)\<close>, \<^verbatim>\<open>pd.DataFrame()\<close>.\<close>

definition iloc :: "frame \<Rightarrow> nat list \<Rightarrow> frame" where
  "iloc df ids = \<lparr> findex = map (\<lambda>i. findex df ! i) ids,
                   fcols = map (\<lambda>(c, vs). (c, map (\<lambda>i. vs ! i) ids)) (fcols df) \<rparr>"

definition empty_like :: "frame \<Rightarrow> frame" where
  "empty_like df = \<lparr> findex = [], fcols = map (\<lambda>c. (c, [])) (columns df) \<rparr>"

definition empty_frame :: frame where
  "empty_frame = \<lparr> findex = [], fcols = [] \<rparr>"

text \<open>The frames the store is fed (spec, data model): row ids are dense, assigned in
  ingestion order; column names are unique; every column has one cell per row.\<close>

definition frame_ok :: "frame \<Rightarrow> bool" where
  "frame_ok df \<longleftrightarrow>
     findex df = [0..<length (findex df)] \<and> distinct (columns df) \<and>
     list_all (\<lambda>(c, vs). length vs = length (findex df)) (fcols df)"

subsection \<open>Python's \<^verbatim>\<open>str\<close> and \<^verbatim>\<open>==\<close> on cells\<close>

definition digit_char :: "nat \<Rightarrow> char" where
  "digit_char n = char_of (48 + n)"

fun str_nat :: "nat \<Rightarrow> string" where
  "str_nat n = (if n < 10 then [digit_char n] else str_nat (n div 10) @ [digit_char (n mod 10)])"

declare str_nat.simps [simp del]

definition str_int :: "int \<Rightarrow> string" where
  "str_int i = (if i < 0 then CHR ''-'' # str_nat (nat (- i)) else str_nat (nat i))"

definition zfill :: "nat \<Rightarrow> string \<Rightarrow> string" where
  "zfill w s = replicate (w - length s) (CHR ''0'') @ s"

text \<open>\<^verbatim>\<open>date.isoformat\<close>: \<^verbatim>\<open>"%04d-%02d-%02d"\<close>.\<close>

definition isoformat :: "date \<Rightarrow> string" where
  "isoformat d = zfill 4 (str_nat (year d)) @ ''-'' @ zfill 2 (str_nat (month d)) @ ''-'' @
                 zfill 2 (str_nat (day d))"

text \<open>\<^verbatim>\<open>Decimal.__str__\<close> of a finite decimal (scientific string, capital E).\<close>

definition str_fdec :: "fdec \<Rightarrow> string" where
  "str_fdec x =
     (let ds = str_nat (coeff x);
          n = int (length ds);
          leftdigits = expo x + n;
          dotplace = (if expo x \<le> 0 \<and> leftdigits > - 6 then leftdigits else 1);
          intpart = (if dotplace \<le> 0 then ''0''
                     else if dotplace \<ge> n then ds @ replicate (nat (dotplace - n)) (CHR ''0'')
                     else take (nat dotplace) ds);
          fracpart = (if dotplace \<le> 0 then ''.'' @ replicate (nat (- dotplace)) (CHR ''0'') @ ds
                      else if dotplace \<ge> n then []
                      else ''.'' @ drop (nat dotplace) ds);
          ex = (if leftdigits = dotplace then []
                else ''E'' @ (if leftdigits - dotplace \<ge> 0 then ''+'' else ''-'') @
                     str_nat (nat \<bar>leftdigits - dotplace\<bar>))
      in (if sign x then ''-'' else []) @ intpart @ fracpart @ ex)"

fun py_str :: "cell \<Rightarrow> string" where
  "py_str Null = ''None''"
| "py_str (DateV d) = isoformat d"
| "py_str (NumV x) = str_fdec x"
| "py_str (StrV s) = s"

text \<open>The numeric value of a finite decimal.\<close>

definition dec_val :: "fdec \<Rightarrow> rat" where
  "dec_val x = (if sign x then - 1 else 1) * of_nat (coeff x) *
               (if expo x \<ge> 0 then 10 ^ nat (expo x) else 1 / 10 ^ nat (- expo x))"

text \<open>One element of \<^verbatim>\<open>df[col] == value\<close> on an object column: a null on either side
  gives False, decimals compare by value, values of different kinds are unequal.\<close>

fun py_eq :: "cell \<Rightarrow> cell \<Rightarrow> bool" where
  "py_eq (DateV a) (DateV b) = (a = b)"
| "py_eq (NumV a) (NumV b) = (dec_val a = dec_val b)"
| "py_eq (StrV a) (StrV b) = (a = b)"
| "py_eq _ _ = False"

text \<open>\<^verbatim>\<open>pd.notna\<close>.\<close>

fun notna :: "cell \<Rightarrow> bool" where
  "notna Null = False"
| "notna _ = True"

section \<open>The dataset store\<close>

text \<open>The three per-dataset index dictionaries.  A Python \<^verbatim>\<open>dict\<close> is an association
  list in insertion order with unique keys.\<close>

record index_store =
  date_columns :: "(string \<times> (date \<times> nat list) list) list"
  numeric_columns :: "(string \<times> (nat \<times> cell) list) list"
  category_columns :: "(string \<times> (string \<times> nat list) list) list"

record 'db store =
  data :: "string \<rightharpoonup> frame"
  metadata :: "string \<rightharpoonup> (string \<times> string) list"
  indexes :: "string \<rightharpoonup> index_store"
  sqlite_conn :: 'db

text \<open>What the store calls outside the modelled code, taken as parameters:
  \<^item> \<open>sort_values\<close>: pandas' \<^verbatim>\<open>Series.sort_values\<close> on the non-null (row id, value) pairs
    of a column (it raises on values that do not compare);
  \<^item> \<open>load_to_sqlite\<close>: \<^verbatim>\<open>_load_to_sqlite\<close>, which writes the relational mirror;
  \<^item> \<open>read_sql_query\<close>: \<^verbatim>\<open>pd.read_sql_query\<close> on the SQLite connection;
  \<^item> \<open>aggregate_tail\<close>: the group-by computation of \<^verbatim>\<open>aggregate_data\<close> after its
    column validation (pandas \<^verbatim>\<open>groupby\<close>/\<^verbatim>\<open>agg\<close> over floats);
  \<^item> \<open>print_adding\<close>: the \<^verbatim>\<open>print\<close> that opens \<^verbatim>\<open>add_dataset\<close>, given the name and the
    number of rows, and \<open>print_query_error\<close>: the \<^verbatim>\<open>print(f"SQLite query error: {e}")\<close> of
    \<^verbatim>\<open>query_sql\<close>, given the exception.  Each is \<open>None\<close> when the line is written and the
    exception when \<^verbatim>\<open>print\<close> raises.\<close>

record 'db externals =
  sort_values :: "(nat \<times> cell) list \<Rightarrow> py_error + (nat \<times> cell) list"
  load_to_sqlite :: "string \<Rightarrow> frame \<Rightarrow> (string \<times> string) list \<Rightarrow> 'db \<Rightarrow> py_error option \<times> 'db"
  read_sql_query :: "string \<Rightarrow> 'db \<Rightarrow> (py_error + frame) \<times> 'db"
  aggregate_tail :: "frame \<Rightarrow> string list \<Rightarrow> string list \<Rightarrow> py_error + frame"
  print_adding :: "string \<Rightarrow> nat \<Rightarrow> py_error option"
  print_query_error :: "py_error \<Rightarrow> py_error option"

definition init_store :: "'db \<Rightarrow> 'db store" where
  "init_store db = \<lparr> data = Map.empty, metadata = Map.empty, indexes = Map.empty, sqlite_conn = db \<rparr>"

subsection \<open>\<^verbatim>\<open>_create_indexes\<close>\<close>

text \<open>\<^verbatim>\<open>if key not in index: index[key] = []\<close> followed by \<^verbatim>\<open>index[key].append(idx)\<close>.\<close>

fun index_add :: "'k \<Rightarrow> nat \<Rightarrow> ('k \<times> nat list) list \<Rightarrow> ('k \<times> nat list) list" where
  "index_add k i [] = [(k, [i])]"
| "index_add k i ((k', js) # rest) =
     (if k' = k then (k', js @ [i]) # rest else (k', js) # index_add k i rest)"

text \<open>The date index of a column: only non-null \<^verbatim>\<open>date\<close> instances are entered.\<close>

definition build_date_index :: "cell list \<Rightarrow> (date \<times> nat list) list" where
  "build_date_index vals =
     foldl (\<lambda>ix (i, v). case v of DateV d \<Rightarrow> index_add d i ix | _ \<Rightarrow> ix) [] (enumerate 0 vals)"

text \<open>The category index of a column: every non-null value under its \<^verbatim>\<open>str\<close>.\<close>

definition build_cat_index :: "cell list \<Rightarrow> (string \<times> nat list) list" where
  "build_cat_index vals =
     foldl (\<lambda>ix (i, v). if notna v then index_add (py_str v) i ix else ix) [] (enumerate 0 vals)"

fun date_loop :: "frame \<Rightarrow> string list \<Rightarrow> (string \<times> (date \<times> nat list) list) list \<Rightarrow>
    py_error + (string \<times> (date \<times> nat list) list) list" where
  "date_loop df [] acc = Inr acc"
| "date_loop df (col # cols) acc =
     (case getitem df col of
        Inl e \<Rightarrow> Inl e
      | Inr vs \<Rightarrow> date_loop df cols (AList.update col (build_date_index vs) acc))"

fun numeric_loop :: "'db externals \<Rightarrow> frame \<Rightarrow> string list \<Rightarrow> (string \<times> (nat \<times> cell) list) list \<Rightarrow>
    py_error + (string \<times> (nat \<times> cell) list) list" where
  "numeric_loop ext df [] acc = Inr acc"
| "numeric_loop ext df (col # cols) acc =
     (case getitem df col of
        Inl e \<Rightarrow> Inl e
      | Inr vs \<Rightarrow>
          (let valid_vals = filter (\<lambda>(i, v). notna v) (zip (findex df) vs) in
           if valid_vals \<noteq> [] then
             (case sort_values ext valid_vals of
                Inl e \<Rightarrow> Inl e
              | Inr sorted_vals \<Rightarrow> numeric_loop ext df cols (AList.update col sorted_vals acc))
           else numeric_loop ext df cols acc))"

fun category_loop :: "frame \<Rightarrow> string list \<Rightarrow> (string \<times> (string \<times> nat list) list) list \<Rightarrow>
    py_error + (string \<times> (string \<times> nat list) list) list" where
  "category_loop df [] acc = Inr acc"
| "category_loop df (col # cols) acc =
     (case getitem df col of
        Inl e \<Rightarrow> Inl e
      | Inr vs \<Rightarrow> category_loop df cols (AList.update col (build_cat_index vs) acc))"

text \<open>Columns are sorted into the three lists by their type label; the three loops run
  in the source's order.  The \<^verbatim>\<open>multi_index\<close> entry is built under a \<^verbatim>\<open>try\<close> that
  swallows every failure and is read by no operation; it is left out.\<close>

definition create_indexes :: "'db externals \<Rightarrow> frame \<Rightarrow> (string \<times> string) list \<Rightarrow> py_error + index_store" where
  "create_indexes ext df column_types =
     (let date_cols = map fst (filter (\<lambda>(col, ty). ty = ''Date'') column_types);
          numeric_cols = map fst (filter (\<lambda>(col, ty). ty \<noteq> ''Date'' \<and> ty = ''Number'') column_types);
          category_cols = map fst (filter (\<lambda>(col, ty). ty \<noteq> ''Date'' \<and> ty \<noteq> ''Number'') column_types)
      in case date_loop df date_cols [] of
           Inl e \<Rightarrow> Inl e
         | Inr dix \<Rightarrow>
             (case numeric_loop ext df numeric_cols [] of
                Inl e \<Rightarrow> Inl e
              | Inr nix \<Rightarrow>
                  (case category_loop df category_cols [] of
                     Inl e \<Rightarrow> Inl e
                   | Inr cix \<Rightarrow>
                       Inr \<lparr> date_columns = dix, numeric_columns = nix, category_columns = cix \<rparr>)))"

subsection \<open>\<^verbatim>\<open>add_dataset\<close>\<close>

text \<open>The opening \<^verbatim>\<open>print\<close> comes before any assignment.  The three steps that follow
  mutate the store in turn, so an exception in a later step leaves the earlier
  assignments in place: the result is the exception, if any, and the store as it
  stands.\<close>

definition add_dataset :: "'db externals \<Rightarrow> string \<Rightarrow> frame \<Rightarrow> (string \<times> string) list \<Rightarrow> 'db store \<Rightarrow>
    py_error option \<times> 'db store" where
  "add_dataset ext name df column_types st =
     (case print_adding ext name (len_frame df) of
        Some e \<Rightarrow> (Some e, st)
      | None \<Rightarrow>
          (let st1 = st\<lparr> data := (data st)(name \<mapsto> df),
                          metadata := (metadata st)(name \<mapsto> column_types) \<rparr>
           in case create_indexes ext df column_types of
                Inl e \<Rightarrow> (Some e, st1)
              | Inr ix \<Rightarrow>
                  (let st2 = st1\<lparr> indexes := (indexes st1)(name \<mapsto> ix) \<rparr>;
                       (err, db) = load_to_sqlite ext name df column_types (sqlite_conn st2)
                   in (err, st2\<lparr> sqlite_conn := db \<rparr>))))"

subsection \<open>\<^verbatim>\<open>query_by_criteria\<close>\<close>

text \<open>\<^verbatim>\<open>indexes.get('date_columns', {})\<close> and \<^verbatim>\<open>indexes.get('category_columns', {})\<close>,
  where \<^verbatim>\<open>indexes = self.indexes.get(dataset_name, {})\<close>.\<close>

definition date_columns_of :: "index_store option \<Rightarrow> (string \<times> (date \<times> nat list) list) list" where
  "date_columns_of ixs = (case ixs of None \<Rightarrow> [] | Some ix \<Rightarrow> date_columns ix)"

definition category_columns_of :: "index_store option \<Rightarrow> (string \<times> (string \<times> nat list) list) list" where
  "category_columns_of ixs = (case ixs of None \<Rightarrow> [] | Some ix \<Rightarrow> category_columns ix)"

text \<open>\<^verbatim>\<open>date_idx.get(value, [])\<close>: the keys are dates, so only a date can be found.\<close>

definition date_get :: "(date \<times> nat list) list \<Rightarrow> cell \<Rightarrow> nat list" where
  "date_get date_idx value =
     (case value of
        DateV d \<Rightarrow> (case map_of date_idx d of None \<Rightarrow> [] | Some js \<Rightarrow> js)
      | _ \<Rightarrow> [])"

text \<open>\<^verbatim>\<open>cat_idx.get(str(value), [])\<close>.\<close>

definition cat_get :: "(string \<times> nat list) list \<Rightarrow> cell \<Rightarrow> nat list" where
  "cat_get cat_idx value = (case map_of cat_idx (py_str value) of None \<Rightarrow> [] | Some js \<Rightarrow> js)"

text \<open>\<^verbatim>\<open>set(df[df[col] == value].index)\<close>: the index labels of the rows whose cell
  equals the value.\<close>

definition scan_labels :: "frame \<Rightarrow> cell list \<Rightarrow> cell \<Rightarrow> nat set" where
  "scan_labels df vs value = set (map fst (filter (\<lambda>(l, v). py_eq v value) (zip (findex df) vs)))"

text \<open>The body of the loop over \<^verbatim>\<open>filters.items()\<close>, threading \<^verbatim>\<open>result_indices\<close>.
  \<^verbatim>\<open>self.metadata[dataset_name][col]['type']\<close> raises \<^verbatim>\<open>KeyError\<close> when the dataset or
  the column has no metadata.\<close>

fun filter_loop :: "frame \<Rightarrow> (string \<times> string) list option \<Rightarrow> index_store option \<Rightarrow> string \<Rightarrow>
    (string \<times> cell) list \<Rightarrow> nat set \<Rightarrow> py_error + nat set" where
  "filter_loop df meta ixs dataset_name [] result_indices = Inr result_indices"
| "filter_loop df meta ixs dataset_name ((col, value) # rest) result_indices =
     (if col \<notin> set (columns df) then filter_loop df meta ixs dataset_name rest result_indices
      else
        (case meta of
           None \<Rightarrow> Inl (KeyError dataset_name)
         | Some m \<Rightarrow>
             (case map_of m col of
                None \<Rightarrow> Inl (KeyError col)
              | Some col_type \<Rightarrow>
                  (if col_type = ''Date'' \<and> col \<in> set (map fst (date_columns_of ixs)) then
                     (case map_of (date_columns_of ixs) col of
                        None \<Rightarrow> Inl (KeyError col)
                      | Some date_idx \<Rightarrow>
                          filter_loop df meta ixs dataset_name rest
                            (result_indices \<inter> set (date_get date_idx value)))
                   else if col_type = ''String'' \<and> col \<in> set (map fst (category_columns_of ixs)) then
                     (case map_of (category_columns_of ixs) col of
                        None \<Rightarrow> Inl (KeyError col)
                      | Some cat_idx \<Rightarrow>
                          filter_loop df meta ixs dataset_name rest
                            (result_indices \<inter> set (cat_get cat_idx value)))
                   else
                     (case getitem df col of
                        Inl e \<Rightarrow> Inl e
                      | Inr vs \<Rightarrow>
                          filter_loop df meta ixs dataset_name rest
                            (result_indices \<inter> scan_labels df vs value))))))"

definition query_by_criteria :: "'db store \<Rightarrow> string \<Rightarrow> (string \<times> cell) list \<Rightarrow> py_error + frame" where
  "query_by_criteria st dataset_name filters =
     (case data st dataset_name of
        None \<Rightarrow> Inl (DatasetNotFound dataset_name)
      | Some df \<Rightarrow>
          (case filter_loop df (metadata st dataset_name) (indexes st dataset_name) dataset_name filters
                  {0..<len_frame df} of
             Inl e \<Rightarrow> Inl e
           | Inr result_indices \<Rightarrow>
               (if result_indices \<noteq> {} then Inr (iloc df (sorted_list_of_set result_indices))
                else Inr (empty_like df))))"

subsection \<open>\<^verbatim>\<open>query_sql\<close>, \<^verbatim>\<open>get_dataset_info\<close>, \<^verbatim>\<open>aggregate_data\<close>\<close>

text \<open>\<^verbatim>\<open>try: return pd.read_sql_query(...)\<close>, with a handler for every \<^verbatim>\<open>Exception\<close> that
  prints the error and returns \<^verbatim>\<open>pd.DataFrame()\<close>.  The \<^verbatim>\<open>print\<close> runs inside the handler,
  under no \<^verbatim>\<open>try\<close> of its own: an exception it raises leaves \<open>query_sql\<close>.  The query
  text is arbitrary SQL, so the connection state may change.\<close>

definition query_sql :: "'db externals \<Rightarrow> string \<Rightarrow> 'db store \<Rightarrow> (py_error + frame) \<times> 'db store" where
  "query_sql ext query st =
     (case read_sql_query ext query (sqlite_conn st) of
        (Inr result_df, db) \<Rightarrow> (Inr result_df, st\<lparr> sqlite_conn := db \<rparr>)
      | (Inl e, db) \<Rightarrow>
          (case print_query_error ext e of
             Some e' \<Rightarrow> (Inl e', st\<lparr> sqlite_conn := db \<rparr>)
           | None \<Rightarrow> (Inr empty_frame, st\<lparr> sqlite_conn := db \<rparr>)))"

text \<open>The dictionary \<^verbatim>\<open>get_dataset_info\<close> returns: \<^verbatim>\<open>{}\<close>, or the four entries
  \<^verbatim>\<open>rows\<close>, \<^verbatim>\<open>columns\<close>, \<^verbatim>\<open>column_types\<close> and \<^verbatim>\<open>indexes\<close> (the key lists of the three
  index dictionaries).\<close>

datatype info_dict =
    EmptyDict
  | InfoDict nat "string list" "(string \<times> string) list" "string list" "string list" "string list"

definition get_dataset_info :: "'db store \<Rightarrow> string \<Rightarrow> py_error + info_dict" where
  "get_dataset_info st dataset_name =
     (case data st dataset_name of
        None \<Rightarrow> Inr EmptyDict
      | Some df \<Rightarrow>
          (let meta = (case metadata st dataset_name of None \<Rightarrow> [] | Some m \<Rightarrow> m);
               idxs = indexes st dataset_name
           in Inr (InfoDict (len_frame df) (columns df) meta
                     (map fst (date_columns_of idxs))
                     (map fst (case idxs of None \<Rightarrow> [] | Some ix \<Rightarrow> numeric_columns ix))
                     (map fst (category_columns_of idxs)))))"

definition aggregate_data :: "'db externals \<Rightarrow> 'db store \<Rightarrow> string \<Rightarrow> string list \<Rightarrow> string list \<Rightarrow>
    py_error + frame" where
  "aggregate_data ext st dataset_name group_by measures' =
     (case data st dataset_name of
        None \<Rightarrow> Inl (DatasetNotFound dataset_name)
      | Some df \<Rightarrow>
          (let missing_group = filter (\<lambda>col. col \<notin> set (columns df)) group_by;
               missing_meas = filter (\<lambda>col. col \<notin> set (columns df)) measures'
           in if missing_group \<noteq> [] \<or> missing_meas \<noteq> [] then
                Inl (MissingColumns missing_group missing_meas)
              else aggregate_tail ext df group_by measures'))"

subsection \<open>The usage example of \<^verbatim>\<open>data_storage.py\<close>\<close>

text \<open>The sample frame and column types of the module's \<^verbatim>\<open>__main__\<close> block.\<close>

definition sample_data :: frame where
  "sample_data = \<lparr> findex = [0, 1, 2],
     fcols = [(''Date'', [DateV (Date 2023 1 15), DateV (Date 2023 2 20), DateV (Date 2023 1 15)]),
              (''Amount'', [NumV (FDec False 123456 (- 2)), NumV (FDec True 250000 (- 2)),
                            NumV (FDec False 99999 (- 2))]),
              (''Category'', [StrV ''Revenue'', StrV ''Expense'', StrV ''Revenue'']),
              (''Description'', [StrV ''Sales'', StrV ''Office Supplies'', StrV ''Consulting''])] \<rparr>"

definition sample_column_types :: "(string \<times> string) list" where
  "sample_column_types =
     [(''Date'', ''Date''), (''Amount'', ''Number''), (''Category'', ''String''),
      (''Description'', ''String'')]"

text \<open>One instance of the external parameters, for evaluating the store on concrete
  inputs: sorting keeps the order, the mirror accepts every load, every SQL query fails
  with a message that quotes the query, the aggregation tail returns an empty frame, and
  every line is printed.\<close>

definition stub_externals :: "unit externals" where
  "stub_externals = \<lparr> sort_values = Inr,
     load_to_sqlite = (\<lambda>name df column_types db. (None, db)),
     read_sql_query = (\<lambda>query db. (Inl (DatabaseError query), db)),
     aggregate_tail = (\<lambda>df group_by ms. Inr empty_frame),
     print_adding = (\<lambda>name rows. None),
     print_query_error = (\<lambda>e. None) \<rparr>"

definition sample_store :: "unit store" where
  "sample_store =
     snd (add_dataset stub_externals ''sample_transactions'' sample_data sample_column_types
            (init_store ()))"

text \<open>The sample frame with its rows in reverse order, as \<^verbatim>\<open>sample_data.iloc[::-1]\<close> gives
  it: the rows keep their labels 2, 1 and 0.\<close>

definition reversed_data :: frame where
  "reversed_data = \<lparr> findex = [2, 1, 0],
     fcols = [(''Date'', [DateV (Date 2023 1 15), DateV (Date 2023 2 20), DateV (Date 2023 1 15)]),
              (''Amount'', [NumV (FDec False 99999 (- 2)), NumV (FDec True 250000 (- 2)),
                            NumV (FDec False 123456 (- 2))]),
              (''Category'', [StrV ''Revenue'', StrV ''Expense'', StrV ''Revenue'']),
              (''Description'', [StrV ''Consulting'', StrV ''Office Supplies'', StrV ''Sales''])] \<rparr>"

definition reversed_store :: "unit store" where
  "reversed_store =
     snd (add_dataset stub_externals ''reversed'' reversed_data sample_column_types (init_store ()))"

text \<open>The sample frame registered with column types that leave out its last column.\<close>

definition partial_column_types :: "(string \<times> string) list" where
  "partial_column_types = [(''Date'', ''Date''), (''Amount'', ''Number''), (''Category'', ''String'')]"

definition partly_typed_store :: "unit store" where
  "partly_typed_store =
     snd (add_dataset stub_externals ''sample_transactions'' sample_data partial_column_types
            (init_store ()))"

text \<open>A standard output that encodes ASCII only: \<^verbatim>\<open>print\<close> raises on a message with any
  other character.  The message of the handler quotes the exception, whose text quotes
  the query.\<close>

definition ascii_stdout :: "py_error \<Rightarrow> py_error option" where
  "ascii_stdout e =
     (case e of
        DatabaseError message \<Rightarrow>
          if list_all (\<lambda>c. (of_char c :: nat) < 128) message then None else Some UnicodeEncodeError
      | _ \<Rightarrow> None)"

definition ascii_externals :: "unit externals" where
  "ascii_externals = stub_externals\<lparr> print_query_error := ascii_stdout \<rparr>"

section \<open>What a filter matches\<close>

text \<open>The rows a single filter \<open>(col, v)\<close> selects, read off the cells: in a column of
  type \<^verbatim>\<open>Date\<close> the date index is keyed by the date objects, so a row matches when its
  cell is a date equal to the filter value; in a column of type \<^verbatim>\<open>String\<close> the category
  index is keyed by \<^verbatim>\<open>str\<close>, so a row matches when its cell is non-null and prints like
  the filter value; every other column is scanned with \<^verbatim>\<open>==\<close>.\<close>

definition row_matches :: "(string \<times> string) list \<Rightarrow> frame \<Rightarrow> string \<Rightarrow> cell \<Rightarrow> nat \<Rightarrow> bool" where
  "row_matches column_types df col v i =
     (case (map_of column_types col, map_of (fcols df) col) of
        (Some ty, Some vs) \<Rightarrow>
          (if ty = ''Date'' then vs ! i = v \<and> (case v of DateV d \<Rightarrow> True | _ \<Rightarrow> False)
           else if ty = ''String'' then notna (vs ! i) \<and> py_str (vs ! i) = py_str v
           else py_eq (vs ! i) v)
      | _ \<Rightarrow> False)"

definition positions :: "('a \<Rightarrow> bool) \<Rightarrow> 'a list \<Rightarrow> nat list" where
  "positions P vals = filter (\<lambda>i. P (vals ! i)) [0..<length vals]"

definition lookup_default :: "('k \<times> nat list) list \<Rightarrow> 'k \<Rightarrow> nat list" where
  "lookup_default ix k = (case map_of ix k of None \<Rightarrow> [] | Some js \<Rightarrow> js)"

section \<open>Python strings\<close>

text \<open>The character classes of Python's \<^verbatim>\<open>str\<close> and \<^verbatim>\<open>re\<close> on the code points 0..255:
  \<^verbatim>\<open>\d\<close> is the ASCII digits, \<^verbatim>\<open>\s\<close> and \<^verbatim>\<open>str.strip\<close> take the separators 9..13,
  28..32, 133 and 160 as white space, \<^verbatim>\<open>str.isdigit\<close> also accepts the superscript
  digits 178, 179 and 185, and \<^verbatim>\<open>str.lower\<close> moves A..Z and 192..222 (but 215) up by 32.\<close>

definition is_digit :: "char \<Rightarrow> bool" where
  "is_digit c \<longleftrightarrow> c \<in> set ''0123456789''"

definition is_space :: "char \<Rightarrow> bool" where
  "is_space c \<longleftrightarrow>
     (let n = (of_char c :: nat)
      in (9 \<le> n \<and> n \<le> 13) \<or> (28 \<le> n \<and> n \<le> 32) \<or> n = 133 \<or> n = 160)"


definition lower_char :: "char \<Rightarrow> char" where
  "lower_char c =
     (let n = (of_char c :: nat)
      in if (65 \<le> n \<and> n \<le> 90) \<or> (192 \<le> n \<and> n \<le> 222 \<and> n \<noteq> 215)
         then (case c of Char b0 b1 b2 b3 b4 b5 b6 b7 \<Rightarrow> Char b0 b1 b2 b3 b4 True b6 b7)
         else c)"

definition lower :: "string \<Rightarrow> string" where
  "lower s = map lower_char s"

definition strip :: "string \<Rightarrow> string" where
  "strip s = rev (dropWhile is_space (rev (dropWhile is_space s)))"

text \<open>\<^verbatim>\<open>s.replace(c, t)\<close> for a single character \<open>c\<close>.\<close>

definition replace :: "char \<Rightarrow> string \<Rightarrow> string \<Rightarrow> string" where
  "replace c t s = concat (map (\<lambda>x. if x = c then t else [x]) s)"

definition nat_of_digits :: "string \<Rightarrow> nat" where
  "nat_of_digits ds = foldl (\<lambda>n c. 10 * n + ((of_char c :: nat) - 48)) 0 ds"




section \<open>Python's \<^verbatim>\<open>Decimal\<close>\<close>

text \<open>A \<^verbatim>\<open>Decimal\<close> is a finite number, an infinity or a NaN (sign, signalling flag,
  payload).\<close>

datatype decimal = Finite fdec | Infinity bool | NaN bool bool nat

definition ndigits :: "nat \<Rightarrow> nat" where
  "ndigits n = length (str_nat n)"

text \<open>The constructor converts exactly or raises: the limits are those of the C
  implementation's maximal context.\<close>

definition MAX_EMAX :: int where "MAX_EMAX = 999999999999999999"
definition MIN_ETINY :: int where "MIN_ETINY = - 1999999999999999997"
definition MAX_PREC :: int where "MAX_PREC = 999999999999999999"

definition exact_in_maxcontext :: "fdec \<Rightarrow> bool" where
  "exact_in_maxcontext x \<longleftrightarrow>
     (if coeff x = 0 then MIN_ETINY \<le> expo x \<and> expo x \<le> MAX_EMAX
      else int (ndigits (coeff x)) \<le> MAX_PREC \<and>
           expo x + int (ndigits (coeff x)) - 1 \<le> MAX_EMAX \<and> MIN_ETINY \<le> expo x)"

definition split_sign :: "string \<Rightarrow> bool \<times> string" where
  "split_sign s =
     (case s of
        [] \<Rightarrow> (False, [])
      | c # t \<Rightarrow> if c = CHR ''-'' then (True, t) else if c = CHR ''+'' then (False, t) else (False, s))"

text \<open>The exponent after the \<^verbatim>\<open>E\<close>: \<^verbatim>\<open>[-+]?\d+\<close> up to the end.\<close>

definition parse_exponent :: "string \<Rightarrow> int option" where
  "parse_exponent s =
     (let (neg, ds) = split_sign s
      in if ds \<noteq> [] \<and> list_all is_digit ds
         then Some (if neg then - int (nat_of_digits ds) else int (nat_of_digits ds))
         else None)"

text \<open>The numeric alternative of the constructor's grammar: digits with an optional
  fraction and at least one digit, then an optional exponent.\<close>

definition parse_number_body :: "bool \<Rightarrow> string \<Rightarrow> decimal option" where
  "parse_number_body sg u =
     (let ip = takeWhile is_digit u;
          r1 = dropWhile is_digit u;
          has_dot = (r1 \<noteq> [] \<and> hd r1 = CHR ''.'');
          fp = (if has_dot then takeWhile is_digit (tl r1) else []);
          r2 = (if has_dot then dropWhile is_digit (tl r1) else r1);
          ex = (if r2 = [] then Some 0
                else if lower_char (hd r2) = CHR ''e'' then parse_exponent (tl r2)
                else None)
      in if ip = [] \<and> fp = [] then None
         else (case ex of
                 None \<Rightarrow> None
               | Some e \<Rightarrow>
                   (let x = FDec sg (nat_of_digits (ip @ fp)) (e - int (length fp))
                    in if exact_in_maxcontext x then Some (Finite x) else None)))"

text \<open>\<^verbatim>\<open>Decimal(s)\<close> for a string: white space is stripped, underscores are dropped,
  then an optional sign and a number, \<^verbatim>\<open>Inf\<close>, \<^verbatim>\<open>Infinity\<close>, \<^verbatim>\<open>NaN\<close> or \<^verbatim>\<open>sNaN\<close> with
  payload digits, in any case.  \<open>None\<close> is \<^verbatim>\<open>InvalidOperation\<close>.\<close>

definition py_Decimal :: "string \<Rightarrow> decimal option" where
  "py_Decimal s =
     (let t = filter (\<lambda>c. c \<noteq> CHR ''_'') (strip s);
          (sg, u) = split_sign t;
          l = lower u
      in if l = ''inf'' \<or> l = ''infinity'' then Some (Infinity sg)
         else if take 3 l = ''nan'' \<and> list_all is_digit (drop 3 l)
           then Some (NaN sg False (nat_of_digits (drop 3 l)))
         else if take 4 l = ''snan'' \<and> list_all is_digit (drop 4 l)
           then Some (NaN sg True (nat_of_digits (drop 4 l)))
         else parse_number_body sg u)"

text \<open>Unary minus works in the default context: precision 28, round half even,
  \<^verbatim>\<open>Emax = 999999\<close>, \<^verbatim>\<open>Emin = -999999\<close>, with \<^verbatim>\<open>InvalidOperation\<close> and \<^verbatim>\<open>Overflow\<close>
  trapped.  \<open>dec_fix\<close> is the rounding every arithmetic result goes through.\<close>

definition Emax :: int where "Emax = 999999"
definition Etiny :: int where "Etiny = - 1000026"
definition Etop :: int where "Etop = 999972"

datatype dec_error = InvalidOperation | Overflow

definition dec_fix :: "fdec \<Rightarrow> dec_error + decimal" where
  "dec_fix x =
     (if coeff x = 0 then Inr (Finite (FDec (sign x) 0 (min (max (expo x) Etiny) Emax)))
      else
        (let exp_min = expo x + int (ndigits (coeff x)) - 28
         in if exp_min > Etop then Inl Overflow
            else
              (let exp_min' = max exp_min Etiny
               in if expo x < exp_min' then
                    (let k = nat (exp_min' - expo x);
                         q = coeff x div 10 ^ k;
                         r = coeff x mod 10 ^ k;
                         half = 5 * 10 ^ (k - 1);
                         up = (r > half \<or> (r = half \<and> odd q));
                         c0 = (if up then q + 1 else q);
                         c1 = (if ndigits c0 > 28 then c0 div 10 else c0);
                         e1 = (if ndigits c0 > 28 then exp_min' + 1 else exp_min')
                     in if e1 > Etop then Inl Overflow else Inr (Finite (FDec (sign x) c1 e1)))
                  else Inr (Finite x))))"

definition dec_neg :: "decimal \<Rightarrow> dec_error + decimal" where
  "dec_neg d =
     (case d of
        NaN sg signalling payload \<Rightarrow>
          if signalling then Inl InvalidOperation else Inr (NaN sg False (payload mod 10 ^ 28))
      | Infinity sg \<Rightarrow> Inr (Infinity (\<not> sg))
      | Finite x \<Rightarrow>
          dec_fix (if coeff x = 0 then FDec False 0 (expo x)
                   else FDec (\<not> sign x) (coeff x) (expo x)))"


section \<open>Regular expressions\<close>

text \<open>The patterns of the source are written in a small regular-expression language
  and run by a backtracking matcher that returns every way to match a prefix, in the
  order Python's \<^verbatim>\<open>re\<close> tries them (greedy repetition, left alternative first), with
  the text of each capture group.  \<^verbatim>\<open>re.match\<close> takes the first.\<close>

datatype rx = Eps | Sym "char \<Rightarrow> bool" | Seq rx rx | Alt rx rx | Star rx | Grp nat rx | Eol

fun rmatch :: "rx \<Rightarrow> string \<Rightarrow> (nat \<times> string) list \<Rightarrow> (string \<times> (nat \<times> string) list) list" where
  "rmatch Eps s c = [(s, c)]"
| "rmatch (Sym p) s c = (case s of [] \<Rightarrow> [] | a # t \<Rightarrow> if p a then [(t, c)] else [])"
| "rmatch (Seq r1 r2) s c = concat (map (\<lambda>(s', c'). rmatch r2 s' c') (rmatch r1 s c))"
| "rmatch (Alt r1 r2) s c = rmatch r1 s c @ rmatch r2 s c"
| "rmatch (Star r) s c =
     concat (map (\<lambda>(s', c'). if length s' < length s then rmatch (Star r) s' c' else [])
               (rmatch r s c)) @ [(s, c)]"
| "rmatch (Grp n r) s c =
     map (\<lambda>(s', c'). (s', (n, take (length s - length s') s) # c')) (rmatch r s c)"
| "rmatch Eol s c = (if s = [] \<or> s = [CHR 0x0A] then [(s, c)] else [])"

definition re_match :: "rx \<Rightarrow> string \<Rightarrow> (nat \<times> string) list option" where
  "re_match r s = (case rmatch r s [] of [] \<Rightarrow> None | (rest, caps) # _ \<Rightarrow> Some caps)"

text \<open>\<^verbatim>\<open>m.group(n)\<close> of a group that took part in the match.\<close>

definition group :: "(nat \<times> string) list \<Rightarrow> nat \<Rightarrow> string" where
  "group caps n = (case map_of caps n of None \<Rightarrow> [] | Some g \<Rightarrow> g)"

definition lit :: "char \<Rightarrow> rx" where "lit a = Sym (\<lambda>x. x = a)"
definition ilit :: "char \<Rightarrow> rx" where "ilit a = Sym (\<lambda>x. lower_char x = lower_char a)"
definition one_of :: "string \<Rightarrow> rx" where "one_of cs = Sym (\<lambda>x. x \<in> set cs)"
definition ione_of :: "string \<Rightarrow> rx" where "ione_of cs = Sym (\<lambda>x. lower_char x \<in> set (lower cs))"
definition digit :: rx where "digit = Sym is_digit"
definition space :: rx where "space = Sym is_space"
definition dot :: rx where "dot = Sym (\<lambda>x. x \<noteq> CHR 0x0A)"
definition opt :: "rx \<Rightarrow> rx" where "opt r = Alt r Eps"
definition plus :: "rx \<Rightarrow> rx" where "plus r = Seq r (Star r)"
definition seqs :: "rx list \<Rightarrow> rx" where "seqs rs = foldr Seq rs Eps"
definition istr :: "string \<Rightarrow> rx" where "istr w = seqs (map ilit w)"

text \<open>\<^verbatim>\<open>r{m,n}\<close>.\<close>

fun upto :: "nat \<Rightarrow> rx \<Rightarrow> rx" where
  "upto 0 r = Eps"
| "upto (Suc k) r = Alt (Seq r (upto k r)) Eps"

definition rep :: "nat \<Rightarrow> nat \<Rightarrow> rx \<Rightarrow> rx" where
  "rep m n r = Seq (seqs (replicate m r)) (upto (n - m) r)"

section \<open>\<^verbatim>\<open>FormatParser\<close>: amounts\<close>

text \<open>A raw cell value: null, an integer, a float (given by its \<^verbatim>\<open>str\<close>) or a text.\<close>

datatype raw = RNull | RInt int | RFloat string | RStr string

text \<open>The currency class \<^verbatim>\<open>[\<euro>$\<rupee>\<pounds>\<yen>]\<close> on the code points 0..255: dollar, pound and
  yen.\<close>

definition currency :: rx where
  "currency = one_of [CHR ''$'', CHR 0xA3, CHR 0xA5]"

definition amount_parentheses :: rx where
  "amount_parentheses = seqs [lit (CHR ''(''), Grp 1 (Star dot), lit (CHR '')''), Eol]"

definition amount_trailing_minus :: rx where
  "amount_trailing_minus = seqs [Grp 1 (Star dot), lit (CHR ''-''), Eol]"

definition amount_currency_prefix :: rx where
  "amount_currency_prefix = seqs [currency, Grp 1 (plus dot), Eol]"

definition amount_currency_suffix :: rx where
  "amount_currency_suffix = seqs [Grp 1 (plus dot), currency, Eol]"

text \<open>\<^verbatim>\<open>^([+-]?\d*\.?\d+)\s*([kmb])$\<close>, ignoring case.\<close>

definition amount_abbreviated :: rx where
  "amount_abbreviated =
     seqs [Grp 1 (seqs [opt (one_of ''+-''), Star digit, opt (lit (CHR ''.'')), plus digit]),
           Star space, Grp 2 (ione_of ''kmb''), Eol]"

text \<open>The characters \<^verbatim>\<open>re.sub(r'[^\d\.\-+]', '', s)\<close> keeps.\<close>

definition keep_char :: "char \<Rightarrow> bool" where
  "keep_char c \<longleftrightarrow> is_digit c \<or> c = CHR ''.'' \<or> c = CHR ''-'' \<or> c = CHR ''+''"

text \<open>The value of \<^verbatim>\<open>cleaned\<close> when \<^verbatim>\<open>_clean_and_parse_number\<close> reaches its
  \<^verbatim>\<open>try\<close>, for the stripped string \<open>s\<close>.\<close>

definition cleaned_text :: "string \<Rightarrow> string" where
  "cleaned_text s =
     (let cleaned = filter keep_char s
      in if CHR ''.'' \<in> set cleaned \<and> CHR '','' \<in> set s then
           filter keep_char (replace (CHR '','') ''.'' (replace (CHR ''.'') [] s))
         else if CHR '','' \<in> set s then replace (CHR '','') [] s
         else cleaned)"

definition clean_and_parse_number :: "string \<Rightarrow> decimal option" where
  "clean_and_parse_number s0 =
     (let s = strip s0
      in if s = [] then None else py_Decimal (cleaned_text s))"

text \<open>\<^verbatim>\<open>-result if result is not None else None\<close>; the negation can raise.\<close>

definition negated :: "decimal option \<Rightarrow> dec_error + decimal option" where
  "negated result =
     (case result of
        None \<Rightarrow> Inr None
      | Some d \<Rightarrow> (case dec_neg d of Inl e \<Rightarrow> Inl e | Inr d' \<Rightarrow> Inr (Some d')))"

definition multiplier :: "string \<Rightarrow> nat" where
  "multiplier suffix =
     (if suffix = ''k'' then 1000 else if suffix = ''m'' then 1000000
      else if suffix = ''b'' then 1000000000 else 1)"

text \<open>\<open>parse_amount\<close>.  The binary floating-point product of the abbreviated form is a
  parameter: \<open>fmul g n\<close> is \<^verbatim>\<open>str(float(g) * n)\<close>.  A float input is not NaN
  (\<^verbatim>\<open>pd.isna\<close> returns early on it).\<close>

definition parse_amount :: "(string \<Rightarrow> nat \<Rightarrow> string) \<Rightarrow> raw \<Rightarrow> dec_error + decimal option" where
  "parse_amount fmul v =
     (case v of
        RNull \<Rightarrow> Inr None
      | RInt i \<Rightarrow> Inr (py_Decimal (str_int i))
      | RFloat r \<Rightarrow> (if lower r = ''nan'' then Inr None else Inr (py_Decimal r))
      | RStr text \<Rightarrow>
          (let original = strip text; s = lower original
           in case re_match amount_parentheses s of
                Some m \<Rightarrow> negated (clean_and_parse_number (group m 1))
              | None \<Rightarrow>
             (case re_match amount_trailing_minus s of
                Some m \<Rightarrow> negated (clean_and_parse_number (group m 1))
              | None \<Rightarrow>
             (case re_match amount_abbreviated s of
                Some m \<Rightarrow> Inr (py_Decimal (fmul (group m 1) (multiplier (lower (group m 2)))))
              | None \<Rightarrow>
             (case re_match amount_currency_prefix original of
                Some m \<Rightarrow> Inr (clean_and_parse_number (group m 1))
              | None \<Rightarrow>
             (case re_match amount_currency_suffix original of
                Some m \<Rightarrow> Inr (clean_and_parse_number (group m 1))
              | None \<Rightarrow> Inr (clean_and_parse_number s)))))))"

section \<open>\<^verbatim>\<open>FormatParser\<close>: dates\<close>

text \<open>\<^verbatim>\<open>date(year, month, day)\<close>: \<open>None\<close> is the \<^verbatim>\<open>ValueError\<close> of an impossible date.\<close>

definition is_leap :: "nat \<Rightarrow> bool" where
  "is_leap y \<longleftrightarrow> y mod 4 = 0 \<and> (y mod 100 \<noteq> 0 \<or> y mod 400 = 0)"

definition days_in_month :: "nat \<Rightarrow> nat \<Rightarrow> nat" where
  "days_in_month y m =
     (if m = 2 then (if is_leap y then 29 else 28)
      else if m \<in> {4, 6, 9, 11} then 30 else 31)"

definition mk_date :: "nat \<Rightarrow> nat \<Rightarrow> nat \<Rightarrow> date option" where
  "mk_date y m d =
     (if 1 \<le> y \<and> y \<le> 9999 \<and> 1 \<le> m \<and> m \<le> 12 \<and> 1 \<le> d \<and> d \<le> days_in_month y m
      then Some (Date y m d) else None)"

text \<open>\<^verbatim>\<open>date.fromordinal\<close>, as the standard library computes it, and the date of an Excel
  serial: \<^verbatim>\<open>datetime(1899, 12, 30) + timedelta(days=serial)\<close>, where 1899-12-30 has the
  ordinal 693594.\<close>

definition days_before_month :: "nat \<Rightarrow> nat" where
  "days_before_month m = [0, 0, 31, 59, 90, 120, 151, 181, 212, 243, 273, 304, 334] ! m"

definition ord2ymd :: "nat \<Rightarrow> date" where
  "ord2ymd ordinal =
     (let n = ordinal - 1;
          n400 = n div 146097; n = n mod 146097;
          n100 = n div 36524; n = n mod 36524;
          n4 = n div 1461; n = n mod 1461;
          n1 = n div 365; n = n mod 365;
          y = n400 * 400 + 1 + n100 * 100 + n4 * 4 + n1
      in if n1 = 4 \<or> n100 = 4 then Date (y - 1) 12 31
         else
           (let leapyear = (n1 = 3 \<and> (n4 \<noteq> 24 \<or> n100 = 3));
                m = (n + 50) div 32;
                preceding = days_before_month m + (if m > 2 \<and> leapyear then 1 else 0);
                m' = (if preceding > n then m - 1 else m);
                preceding' = (if preceding > n
                              then preceding - (days_in_month 1 m' + (if m' = 2 \<and> leapyear then 1 else 0))
                              else preceding)
            in Date y m' (n - preceding' + 1)))"

definition excel_date :: "nat \<Rightarrow> date" where
  "excel_date serial = ord2ymd (693594 + serial)"

definition month_map :: "string \<Rightarrow> nat option" where
  "month_map = map_of
     [(''jan'', 1), (''feb'', 2), (''mar'', 3), (''apr'', 4), (''may'', 5), (''jun'', 6),
      (''jul'', 7), (''aug'', 8), (''sep'', 9), (''oct'', 10), (''nov'', 11), (''dec'', 12)]"

definition ascii_letter :: rx where
  "ascii_letter = one_of ''ABCDEFGHIJKLMNOPQRSTUVWXYZabcdefghijklmnopqrstuvwxyz''"

text \<open>\<^verbatim>\<open>^(\d{1,2})/(\d{1,2})/(\d{4})$\<close>\<close>

definition date_mm_dd_yyyy :: rx where
  "date_mm_dd_yyyy =
     seqs [Grp 1 (rep 1 2 digit), lit (CHR ''/''), Grp 2 (rep 1 2 digit), lit (CHR ''/''),
           Grp 3 (rep 4 4 digit), Eol]"

text \<open>\<^verbatim>\<open>^(\d{4})-(\d{1,2})-(\d{1,2})$\<close>\<close>

definition date_yyyy_mm_dd :: rx where
  "date_yyyy_mm_dd =
     seqs [Grp 1 (rep 4 4 digit), lit (CHR ''-''), Grp 2 (rep 1 2 digit), lit (CHR ''-''),
           Grp 3 (rep 1 2 digit), Eol]"

text \<open>\<^verbatim>\<open>^(\d{1,2})-([A-Za-z]{3})-(\d{4})$\<close>\<close>

definition date_dd_mon_yyyy :: rx where
  "date_dd_mon_yyyy =
     seqs [Grp 1 (rep 1 2 digit), lit (CHR ''-''), Grp 2 (rep 3 3 ascii_letter), lit (CHR ''-''),
           Grp 3 (rep 4 4 digit), Eol]"

text \<open>\<^verbatim>\<open>^([A-Za-z]+) (\d{4})$\<close>\<close>

definition date_mon_yyyy :: rx where
  "date_mon_yyyy = seqs [Grp 1 (plus ascii_letter), lit (CHR '' ''), Grp 2 (rep 4 4 digit), Eol]"

text \<open>\<^verbatim>\<open>^(Q[1-4])\s*[-\s]?\s*(\d{2,4})$\<close>, ignoring case\<close>

definition date_quarter :: rx where
  "date_quarter =
     seqs [Grp 1 (Seq (ilit (CHR ''Q'')) (one_of ''1234'')), Star space,
           opt (Alt (lit (CHR ''-'')) space), Star space, Grp 2 (rep 2 4 digit), Eol]"

text \<open>\<^verbatim>\<open>^Quarter ([1-4]) (\d{4})$\<close>, ignoring case\<close>

definition date_quarter_full :: rx where
  "date_quarter_full =
     seqs [istr ''Quarter'', lit (CHR '' ''), Grp 1 (one_of ''1234''), lit (CHR '' ''),
           Grp 2 (rep 4 4 digit), Eol]"

text \<open>The string part of \<open>parse_date\<close>.  Each pattern that matches tries to build its
  date; a \<^verbatim>\<open>ValueError\<close> is swallowed and the next pattern is tried.\<close>

definition try_mm_dd_yyyy :: "string \<Rightarrow> date option" where
  "try_mm_dd_yyyy s =
     (case re_match date_mm_dd_yyyy s of
        None \<Rightarrow> None
      | Some m \<Rightarrow>
          (let month = nat_of_digits (group m 1); day = nat_of_digits (group m 2);
               year = nat_of_digits (group m 3)
           in if day > 12 then mk_date year month day else mk_date year month day))"

definition try_yyyy_mm_dd :: "string \<Rightarrow> date option" where
  "try_yyyy_mm_dd s =
     (case re_match date_yyyy_mm_dd s of
        None \<Rightarrow> None
      | Some m \<Rightarrow>
          mk_date (nat_of_digits (group m 1)) (nat_of_digits (group m 2)) (nat_of_digits (group m 3)))"

definition try_dd_mon_yyyy :: "string \<Rightarrow> date option" where
  "try_dd_mon_yyyy s =
     (case re_match date_dd_mon_yyyy s of
        None \<Rightarrow> None
      | Some m \<Rightarrow>
          (case month_map (lower (group m 2)) of
             None \<Rightarrow> None
           | Some mth \<Rightarrow> mk_date (nat_of_digits (group m 3)) mth (nat_of_digits (group m 1))))"

definition try_mon_yyyy :: "string \<Rightarrow> date option" where
  "try_mon_yyyy s =
     (case re_match date_mon_yyyy s of
        None \<Rightarrow> None
      | Some m \<Rightarrow>
          (case month_map (lower (take 3 (group m 1))) of
             None \<Rightarrow> None
           | Some mth \<Rightarrow> mk_date (nat_of_digits (group m 2)) mth 1))"

definition try_quarter :: "string \<Rightarrow> date option" where
  "try_quarter s =
     (case re_match date_quarter s of
        None \<Rightarrow> None
      | Some m \<Rightarrow>
          (let q = nat_of_digits [group m 1 ! 1];
               year = nat_of_digits (group m 2);
               year = (if length (str_nat year) = 2 then year + (if year < 50 then 2000 else 1900)
                       else year)
           in mk_date year ((q - 1) * 3 + 1) 1))"

definition try_quarter_full :: "string \<Rightarrow> date option" where
  "try_quarter_full s =
     (case re_match date_quarter_full s of
        None \<Rightarrow> None
      | Some m \<Rightarrow>
          mk_date (nat_of_digits (group m 2)) ((nat_of_digits (group m 1) - 1) * 3 + 1) 1)"

text \<open>The first of a list of attempts that gives a date.\<close>

fun first_date :: "(string \<Rightarrow> date option) list \<Rightarrow> string \<Rightarrow> date option" where
  "first_date [] s = None"
| "first_date (f # fs) s = (case f s of Some d \<Rightarrow> Some d | None \<Rightarrow> first_date fs s)"

definition parse_date_text :: "string \<Rightarrow> date option" where
  "parse_date_text text =
     first_date [try_mm_dd_yyyy, try_yyyy_mm_dd, try_dd_mon_yyyy, try_mon_yyyy, try_quarter,
                 try_quarter_full] (strip text)"

text \<open>\<open>parse_date\<close>: an integer in the Excel range is a serial date; any other value goes
  through its \<^verbatim>\<open>str\<close>.\<close>

definition parse_date :: "raw \<Rightarrow> date option" where
  "parse_date v =
     (case v of
        RNull \<Rightarrow> None
      | RInt i \<Rightarrow> (if 1 \<le> i \<and> i \<le> 2958465 then Some (excel_date (nat i))
                   else parse_date_text (str_int i))
      | RFloat r \<Rightarrow> (if lower r = ''nan'' then None else parse_date_text r)
      | RStr text \<Rightarrow> parse_date_text text)"

section \<open>\<^verbatim>\<open>DataTypeDetector\<close>\<close>
































section \<open>What the classifier counts\<close>















section \<open>Index lookups\<close>

lemma positions_snoc:
  "positions P (xs @ [x]) = positions P xs @ (if P x then [length xs] else [])"
  by (auto simp: positions_def nth_append intro!: filter_cong)

lemma lookup_index_add:
  "lookup_default (index_add k i ix) k' = lookup_default ix k' @ (if k' = k then [i] else [])"
  by (induction ix) (auto simp: lookup_default_def)

lemma enumerate_snoc: "enumerate n (xs @ [x]) = enumerate n xs @ [(n + length xs, x)]"
  by (simp add: enumerate_append_eq)

lemma lookup_build_date_index:
  "lookup_default (build_date_index vals) d = positions (\<lambda>v. v = DateV d) vals"
proof (induction vals rule: rev_induct)
  case Nil
  show ?case by (simp add: build_date_index_def lookup_default_def positions_def)
next
  case (snoc x xs)
  then show ?case
    by (cases x) (auto simp: build_date_index_def enumerate_snoc positions_snoc lookup_index_add)
qed

lemma lookup_build_cat_index:
  "lookup_default (build_cat_index vals) k = positions (\<lambda>v. notna v \<and> py_str v = k) vals"
proof (induction vals rule: rev_induct)
  case Nil
  show ?case by (simp add: build_cat_index_def lookup_default_def positions_def)
next
  case (snoc x xs)
  then show ?case
    by (auto simp: build_cat_index_def enumerate_snoc positions_snoc lookup_index_add)
qed

lemma set_date_get:
  "set (date_get (build_date_index vals) value) =
     {i. i < length vals \<and> vals ! i = value \<and> (\<exists>d. value = DateV d)}"
proof (cases "value")
  case (DateV d)
  have "date_get (build_date_index vals) value = lookup_default (build_date_index vals) d"
    by (simp add: date_get_def lookup_default_def DateV)
  then show ?thesis by (auto simp: lookup_build_date_index positions_def DateV)
qed (auto simp: date_get_def)

lemma set_cat_get:
  "set (cat_get (build_cat_index vals) value) =
     {i. i < length vals \<and> notna (vals ! i) \<and> py_str (vals ! i) = py_str value}"
proof -
  have "cat_get (build_cat_index vals) value = lookup_default (build_cat_index vals) (py_str value)"
    by (simp add: cat_get_def lookup_default_def)
  then show ?thesis by (auto simp: lookup_build_cat_index positions_def)
qed

lemma scan_labels_range:
  assumes "findex df = [0..<length (findex df)]" and "length vs = length (findex df)"
  shows "scan_labels df vs value = {i. i < length vs \<and> py_eq (vs ! i) value}"
proof -
  have "zip (findex df) vs = enumerate 0 vs"
    using assms by (metis add_0 enumerate_eq_zip)
  then show ?thesis
    by (auto simp: scan_labels_def in_set_enumerate_eq image_iff) 
qed


lemma date_loop_result:
  "date_loop df cols acc = Inr r \<Longrightarrow>
     set (map fst r) = set cols \<union> set (map fst acc) \<and>
     (\<forall>col \<in> set cols. \<exists>vs. map_of (fcols df) col = Some vs \<and> map_of r col = Some (build_date_index vs))"
proof (induction cols arbitrary: acc)
  case Nil
  then show ?case by simp
next
  case (Cons c cols)
  from Cons.prems obtain vs where vs: "map_of (fcols df) c = Some vs"
    and rest: "date_loop df cols (AList.update c (build_date_index vs) acc) = Inr r"
    by (auto simp: getitem_def split: option.splits)
  note ih = Cons.IH[OF rest]
  have "map_of r c = Some (build_date_index vs)"
  proof (cases "c \<in> set cols")
    case True
    with ih vs show ?thesis by auto
  next
    case False
    have "\<And>acc'. date_loop df cols acc' = Inr r \<Longrightarrow> c \<notin> set cols \<Longrightarrow> map_of r c = map_of acc' c"
    proof (induction cols)
      case Nil
      then show ?case by simp
    next
      case (Cons a cols)
      then show ?case
        by (auto simp: getitem_def update_conv' split: option.splits)
    qed
    from this[OF rest False] show ?thesis by (simp add: update_conv')
  qed
  with ih vs show ?case by (auto simp: dom_update)
qed


lemma category_loop_result:
  "category_loop df cols acc = Inr r \<Longrightarrow>
     set (map fst r) = set cols \<union> set (map fst acc) \<and>
     (\<forall>col \<in> set cols. \<exists>vs. map_of (fcols df) col = Some vs \<and> map_of r col = Some (build_cat_index vs))"
proof (induction cols arbitrary: acc)
  case Nil
  then show ?case by simp
next
  case (Cons c cols)
  from Cons.prems obtain vs where vs: "map_of (fcols df) c = Some vs"
    and rest: "category_loop df cols (AList.update c (build_cat_index vs) acc) = Inr r"
    by (auto simp: getitem_def split: option.splits)
  note ih = Cons.IH[OF rest]
  have "map_of r c = Some (build_cat_index vs)"
  proof (cases "c \<in> set cols")
    case True
    with ih vs show ?thesis by auto
  next
    case False
    have "\<And>acc'. category_loop df cols acc' = Inr r \<Longrightarrow> c \<notin> set cols \<Longrightarrow> map_of r c = map_of acc' c"
    proof (induction cols)
      case Nil
      then show ?case by simp
    next
      case (Cons a cols)
      then show ?case
        by (auto simp: getitem_def update_conv' split: option.splits)
    qed
    from this[OF rest False] show ?thesis by (simp add: update_conv')
  qed
  with ih vs show ?case by (auto simp: dom_update)
qed

lemma create_indexes_date:
  assumes "create_indexes ext df ct = Inr ix"
  shows "set (map fst (date_columns ix)) = {col. (col, ''Date'') \<in> set ct}"
    and "(col, ''Date'') \<in> set ct \<Longrightarrow>
         \<exists>vs. map_of (fcols df) col = Some vs \<and> map_of (date_columns ix) col = Some (build_date_index vs)"
proof -
  let ?dc = "map fst (filter (\<lambda>(col, ty). ty = ''Date'') ct)"
  from assms obtain dix where d: "date_loop df ?dc [] = Inr dix" and dx: "date_columns ix = dix"
    by (auto simp: create_indexes_def Let_def split: sum.splits)
  have s: "set ?dc = {col. (col, ''Date'') \<in> set ct}" by force
  from date_loop_result[OF d] s dx
  show "set (map fst (date_columns ix)) = {col. (col, ''Date'') \<in> set ct}" by simp
  assume "(col, ''Date'') \<in> set ct"
  with s have "col \<in> set ?dc" by blast
  with date_loop_result[OF d] dx
  show "\<exists>vs. map_of (fcols df) col = Some vs \<and> map_of (date_columns ix) col = Some (build_date_index vs)"
    by blast
qed

lemma create_indexes_category:
  assumes "create_indexes ext df ct = Inr ix"
  shows "set (map fst (category_columns ix)) = {col. \<exists>ty. (col, ty) \<in> set ct \<and> ty \<noteq> ''Date'' \<and> ty \<noteq> ''Number''}"
    and "(col, ty) \<in> set ct \<Longrightarrow> ty \<noteq> ''Date'' \<Longrightarrow> ty \<noteq> ''Number'' \<Longrightarrow>
         \<exists>vs. map_of (fcols df) col = Some vs \<and> map_of (category_columns ix) col = Some (build_cat_index vs)"
proof -
  let ?cc = "map fst (filter (\<lambda>(col, ty). ty \<noteq> ''Date'' \<and> ty \<noteq> ''Number'') ct)"
  from assms obtain cix where d: "category_loop df ?cc [] = Inr cix" and dx: "category_columns ix = cix"
    by (auto simp: create_indexes_def Let_def split: sum.splits)
  have s: "set ?cc = {col. \<exists>ty. (col, ty) \<in> set ct \<and> ty \<noteq> ''Date'' \<and> ty \<noteq> ''Number''}" by force
  from category_loop_result[OF d] s dx
  show "set (map fst (category_columns ix)) = {col. \<exists>ty. (col, ty) \<in> set ct \<and> ty \<noteq> ''Date'' \<and> ty \<noteq> ''Number''}"
    by simp
  assume "(col, ty) \<in> set ct" "ty \<noteq> ''Date''" "ty \<noteq> ''Number''"
  with s have "col \<in> set ?cc" by blast
  with category_loop_result[OF d] dx
  show "\<exists>vs. map_of (fcols df) col = Some vs \<and> map_of (category_columns ix) col = Some (build_cat_index vs)"
    by blast
qed


lemma filter_loop_registered:
  assumes ci: "create_indexes ext df ct = Inr ix"
    and ok: "frame_ok df"
    and typed: "set (columns df) \<subseteq> set (map fst ct)"
  shows "R \<subseteq> {0..<len_frame df} \<Longrightarrow>
         filter_loop df (Some ct) (Some ix) name filters R =
           Inr {i \<in> R. list_all (\<lambda>(col, v). col \<in> set (columns df) \<longrightarrow> row_matches ct df col v i) filters}"
proof (induction filters arbitrary: R)
  case Nil
  show ?case by simp
next
  case (Cons f rest)
  obtain col v where f: "f = (col, v)" by (cases f)
  show ?case
  proof (cases "col \<in> set (columns df)")
    case False
    with Cons f show ?thesis by simp
  next
    case True
    with typed obtain ty where ty: "map_of ct col = Some ty"
      by (metis map_of_eq_None_iff not_Some_eq set_map subsetD)
    from True obtain vs where vs: "map_of (fcols df) col = Some vs"
      by (metis columns_def map_of_eq_None_iff not_Some_eq set_map)
    from vs ok have len: "length vs = len_frame df"
      by (auto simp: frame_ok_def list_all_iff len_frame_def dest!: map_of_SomeD)
    from ok have fi: "findex df = [0..<length (findex df)]" by (simp add: frame_ok_def)
    from ty have mem: "(col, ty) \<in> set ct" by (rule map_of_SomeD)
    have rm: "\<And>i. row_matches ct df col v i =
        (if ty = ''Date'' then vs ! i = v \<and> (\<exists>d. v = DateV d)
         else if ty = ''String'' then notna (vs ! i) \<and> py_str (vs ! i) = py_str v
         else py_eq (vs ! i) v)"
      by (auto simp: row_matches_def ty vs split: cell.splits)
    have sub: "\<And>S. R \<inter> S \<subseteq> {0..<len_frame df}" using Cons.prems by blast
    show ?thesis
    proof (cases "ty = ''Date''")
      case d: True
      from create_indexes_date(2)[OF ci, of col] mem d vs
      have m: "map_of (date_columns ix) col = Some (build_date_index vs)" by auto
      from create_indexes_date(1)[OF ci] mem d
      have i: "col \<in> set (map fst (date_columns ix))" by auto
      have "filter_loop df (Some ct) (Some ix) name (f # rest) R =
            filter_loop df (Some ct) (Some ix) name rest (R \<inter> set (date_get (build_date_index vs) v))"
        using True ty d m i by (simp add: f date_columns_of_def)
      also have "\<dots> = Inr {i \<in> R \<inter> set (date_get (build_date_index vs) v).
          list_all (\<lambda>(col, v). col \<in> set (columns df) \<longrightarrow> row_matches ct df col v i) rest}"
        by (rule Cons.IH[OF sub])
      also have "{i \<in> R \<inter> set (date_get (build_date_index vs) v).
          list_all (\<lambda>(col, v). col \<in> set (columns df) \<longrightarrow> row_matches ct df col v i) rest} =
         {i \<in> R. list_all (\<lambda>(col, v). col \<in> set (columns df) \<longrightarrow> row_matches ct df col v i) (f # rest)}"
        using Cons.prems len True d by (auto simp: f rm set_date_get)
      finally show ?thesis .
    next
      case nd: False
      show ?thesis
      proof (cases "ty = ''String''")
        case s: True
        from create_indexes_category(2)[OF ci mem] s vs
        have m: "map_of (category_columns ix) col = Some (build_cat_index vs)" by auto
        from create_indexes_category(1)[OF ci] mem s
        have i: "col \<in> set (map fst (category_columns ix))" by auto
        have "filter_loop df (Some ct) (Some ix) name (f # rest) R =
              filter_loop df (Some ct) (Some ix) name rest (R \<inter> set (cat_get (build_cat_index vs) v))"
          using True ty s m i by (simp add: f category_columns_of_def)
        also have "\<dots> = Inr {i \<in> R \<inter> set (cat_get (build_cat_index vs) v).
            list_all (\<lambda>(col, v). col \<in> set (columns df) \<longrightarrow> row_matches ct df col v i) rest}"
          by (rule Cons.IH[OF sub])
        also have "{i \<in> R \<inter> set (cat_get (build_cat_index vs) v).
            list_all (\<lambda>(col, v). col \<in> set (columns df) \<longrightarrow> row_matches ct df col v i) rest} =
           {i \<in> R. list_all (\<lambda>(col, v). col \<in> set (columns df) \<longrightarrow> row_matches ct df col v i) (f # rest)}"
          using Cons.prems len True s by (auto simp: f rm set_cat_get)
        finally show ?thesis .
      next
        case ns: False
        have "filter_loop df (Some ct) (Some ix) name (f # rest) R =
              filter_loop df (Some ct) (Some ix) name rest (R \<inter> scan_labels df vs v)"
          using True ty nd ns vs by (simp add: f getitem_def)
        also have "\<dots> = Inr {i \<in> R \<inter> scan_labels df vs v.
            list_all (\<lambda>(col, v). col \<in> set (columns df) \<longrightarrow> row_matches ct df col v i) rest}"
          by (rule Cons.IH[OF sub])
        also have "{i \<in> R \<inter> scan_labels df vs v.
            list_all (\<lambda>(col, v). col \<in> set (columns df) \<longrightarrow> row_matches ct df col v i) rest} =
           {i \<in> R. list_all (\<lambda>(col, v). col \<in> set (columns df) \<longrightarrow> row_matches ct df col v i) (f # rest)}"
          using Cons.prems len True nd ns fi
          by (auto simp: f rm scan_labels_range len_frame_def)
        finally show ?thesis .
      qed
    qed
  qed
qed

section \<open>The rows a query returns\<close>

lemma sorted_list_of_set_filter_upt:
  "sorted_list_of_set {i \<in> {0..<n}. P i} = filter P [0..<n]"
proof -
  have "set (filter P [0..<n]) = {i \<in> {0..<n}. P i}" by auto
  moreover have "sorted (filter P [0..<n])" by (simp add: sorted_wrt_filter)
  moreover have "distinct (filter P [0..<n])" by simp
  ultimately show ?thesis
    using sorted_list_of_set.idem_if_sorted_distinct by metis
qed

lemma empty_like_iloc: "empty_like df = iloc df []"
  by (simp add: empty_like_def iloc_def columns_def case_prod_unfold)

lemma add_dataset_ok:
  assumes "add_dataset ext name df ct st = (None, st')"
  shows "\<exists>ix. create_indexes ext df ct = Inr ix \<and> data st' name = Some df \<and>
           metadata st' name = Some ct \<and> indexes st' name = Some ix"
proof (cases "create_indexes ext df ct")
  case (Inl e)
  with assms show ?thesis by (simp add: add_dataset_def Let_def split: option.splits)
next
  case (Inr ix)
  with assms show ?thesis
    by (auto simp: add_dataset_def Let_def split: prod.splits option.splits)
qed


lemma query_result_ids:
  assumes d: "data st name = Some df"
    and fl: "filter_loop df (metadata st name) (indexes st name) name filters {0..<len_frame df} =
             Inr {i \<in> {0..<len_frame df}. P i}"
  shows "query_by_criteria st name filters = Inr (iloc df (filter P [0..<len_frame df]))"
proof (cases "{i \<in> {0..<len_frame df}. P i} = {}")
  case True
  have "filter P [0..<len_frame df] = sorted_list_of_set {i \<in> {0..<len_frame df}. P i}"
    by (simp only: sorted_list_of_set_filter_upt)
  also have "\<dots> = []" by (simp only: True sorted_list_of_set.sorted_key_list_of_set_empty)
  finally have e: "filter P [0..<len_frame df] = []" .
  have "query_by_criteria st name filters = Inr (empty_like df)"
    using True by (simp add: query_by_criteria_def d fl)
  then show ?thesis by (simp only: e empty_like_iloc)
next
  case False
  have "query_by_criteria st name filters =
        Inr (iloc df (sorted_list_of_set {i \<in> {0..<len_frame df}. P i}))"
    using False by (simp add: query_by_criteria_def d fl)
  then show ?thesis by (simp only: sorted_list_of_set_filter_upt)
qed

lemma query_registered:
  assumes "add_dataset ext name df ct st = (None, st')"
    and "frame_ok df" and "set (columns df) \<subseteq> set (map fst ct)"
  shows "query_by_criteria st' name filters =
     Inr (iloc df (filter (\<lambda>i. list_all (\<lambda>(col, v). col \<in> set (columns df) \<longrightarrow> row_matches ct df col v i) filters)
                      [0..<len_frame df]))"
proof -
  from add_dataset_ok[OF assms(1)] obtain ix where ci: "create_indexes ext df ct = Inr ix"
    and d: "data st' name = Some df" and m: "metadata st' name = Some ct"
    and i: "indexes st' name = Some ix" by blast
  show ?thesis
    by (rule query_result_ids[OF d]) (simp only: m i filter_loop_registered[OF ci assms(2,3) order_refl])
qed

section \<open>Facts about frames, filters and the sample store\<close>

lemma iloc_all:
  assumes "frame_ok df"
  shows "iloc df [0..<len_frame df] = df"
proof -
  have a: "map (\<lambda>i. findex df ! i) [0..<length (findex df)] = findex df"
    by (rule map_nth)
  have b: "\<And>c vs. (c, vs) \<in> set (fcols df) \<Longrightarrow> map (\<lambda>i. vs ! i) [0..<length (findex df)] = vs"
  proof -
    fix c vs assume "(c, vs) \<in> set (fcols df)"
    with assms have "length vs = length (findex df)"
      by (auto simp: frame_ok_def list_all_iff)
    then show "map (\<lambda>i. vs ! i) [0..<length (findex df)] = vs"
      by (metis map_nth)
  qed
  have "map (\<lambda>(c, vs). (c, map (\<lambda>i. vs ! i) [0..<length (findex df)])) (fcols df) = fcols df"
    by (rule map_idI) (auto simp: b)
  then show ?thesis by (simp add: iloc_def len_frame_def a)
qed

lemma filter_loop_unknown:
  "list_all (\<lambda>(col, v). col \<notin> set (columns df)) filters \<Longrightarrow>
   filter_loop df meta ixs n filters r = Inr r"
  by (induction filters arbitrary: r) auto

lemma filter_loop_drop_unknown:
  "filter_loop df meta ixs n filters r =
   filter_loop df meta ixs n (filter (\<lambda>(col, v). col \<in> set (columns df)) filters) r"
  by (induction df meta ixs n filters r rule: filter_loop.induct)
     (auto split: option.splits sum.splits)

lemma filter_loop_index_cong:
  "date_columns_of a = date_columns_of b \<Longrightarrow> category_columns_of a = category_columns_of b \<Longrightarrow>
   filter_loop df meta a n filters r = filter_loop df meta b n filters r"
  by (induction df meta a n filters r rule: filter_loop.induct)
     (auto split: option.splits sum.splits)

lemma sample_registered:
  "add_dataset stub_externals ''sample_transactions'' sample_data sample_column_types (init_store ()) =
     (None, sample_store)"
  by (simp add: sample_store_def add_dataset_def create_indexes_def sample_data_def
        sample_column_types_def stub_externals_def getitem_def Let_def split: prod.splits)

lemma sample_frame_ok: "frame_ok sample_data"
  by (simp add: frame_ok_def sample_data_def columns_def upt_rec)

lemma sample_typed: "set (columns sample_data) \<subseteq> set (map fst sample_column_types)"
  by (simp add: sample_data_def columns_def sample_column_types_def)


section \<open>Claims about the dataset store\<close>

text \<open>On a dataset whose rows are labelled 0, 1, 2, ... in order and whose columns all
  have a type entry, \<open>query_by_criteria\<close> returns the rows, in ascending order, that
  every filter on a column of the dataset matches: the per-column match sets are
  intersected, where a \<^verbatim>\<open>Date\<close> column is matched through its date index, a \<^verbatim>\<open>String\<close>
  column through its category index and any other column by an equality scan.  With no
  filter the whole dataset is returned.  This holds in every store that holds the frame
  with its types and the indexes built from them.  On the sample rows, filtering on
  Date = 2023-01-15 and Category = Revenue returns exactly the rows 0 and 2.\<close>
theorem dense_rows_filter_intersection:
  assumes "data st name = Some df" and "metadata st name = Some ct"
    and "indexes st name = Some ix" and "create_indexes ext df ct = Inr ix"
    and "frame_ok df" and "set (columns df) \<subseteq> set (map fst ct)"
  shows "query_by_criteria st name filters =
           Inr (iloc df (filter (\<lambda>i. list_all (\<lambda>(col, v). col \<in> set (columns df) \<longrightarrow>
                                                    row_matches ct df col v i) filters)
                          [0..<len_frame df])) \<and>
         query_by_criteria st name [] = Inr df \<and>
         query_by_criteria sample_store ''sample_transactions''
             [(''Date'', DateV (Date 2023 1 15)), (''Category'', StrV ''Revenue'')] =
           Inr \<lparr> findex = [0, 2],
                 fcols = [(''Date'', [DateV (Date 2023 1 15), DateV (Date 2023 1 15)]),
                          (''Amount'', [NumV (FDec False 123456 (- 2)), NumV (FDec False 99999 (- 2))]),
                          (''Category'', [StrV ''Revenue'', StrV ''Revenue'']),
                          (''Description'', [StrV ''Sales'', StrV ''Consulting''])] \<rparr>"
proof (intro conjI)
  have q: "query_by_criteria st name fs =
           Inr (iloc df (filter (\<lambda>i. list_all (\<lambda>(col, v). col \<in> set (columns df) \<longrightarrow>
                                                    row_matches ct df col v i) fs)
                          [0..<len_frame df]))" for fs
    by (rule query_result_ids[OF assms(1)])
       (simp only: assms(2,3) filter_loop_registered[OF assms(4,5,6) order_refl])
  show "query_by_criteria st name filters =
           Inr (iloc df (filter (\<lambda>i. list_all (\<lambda>(col, v). col \<in> set (columns df) \<longrightarrow>
                                                    row_matches ct df col v i) filters)
                          [0..<len_frame df]))"
    by (rule q)
  have "query_by_criteria st name [] = Inr (iloc df (filter (\<lambda>i. True) [0..<len_frame df]))"
    using q[of "[]"] by simp
  then show "query_by_criteria st name [] = Inr df"
    by (simp add: iloc_all[OF assms(5)])
  have "query_by_criteria sample_store ''sample_transactions''
             [(''Date'', DateV (Date 2023 1 15)), (''Category'', StrV ''Revenue'')] =
        Inr (iloc sample_data (filter (\<lambda>i. list_all (\<lambda>(col, v). col \<in> set (columns sample_data) \<longrightarrow>
                 row_matches sample_column_types sample_data col v i)
                 [(''Date'', DateV (Date 2023 1 15)), (''Category'', StrV ''Revenue'')])
                          [0..<len_frame sample_data]))"
    by (rule query_registered[OF sample_registered sample_frame_ok sample_typed])
  also have "\<dots> = Inr \<lparr> findex = [0, 2],
                 fcols = [(''Date'', [DateV (Date 2023 1 15), DateV (Date 2023 1 15)]),
                          (''Amount'', [NumV (FDec False 123456 (- 2)), NumV (FDec False 99999 (- 2))]),
                          (''Category'', [StrV ''Revenue'', StrV ''Revenue'']),
                          (''Description'', [StrV ''Sales'', StrV ''Consulting''])] \<rparr>"
    by (simp add: iloc_def len_frame_def sample_data_def sample_column_types_def columns_def
          row_matches_def upt_rec)
  finally show "query_by_criteria sample_store ''sample_transactions''
             [(''Date'', DateV (Date 2023 1 15)), (''Category'', StrV ''Revenue'')] =
           Inr \<lparr> findex = [0, 2],
                 fcols = [(''Date'', [DateV (Date 2023 1 15), DateV (Date 2023 1 15)]),
                          (''Amount'', [NumV (FDec False 123456 (- 2)), NumV (FDec False 99999 (- 2))]),
                          (''Category'', [StrV ''Revenue'', StrV ''Revenue'']),
                          (''Description'', [StrV ''Sales'', StrV ''Consulting''])] \<rparr>" .
qed

text \<open>The theorem above at the sample dataset, for a text filter and a numeric filter
  (\<^verbatim>\<open>Decimal('-2.5E+3')\<close> equals \<^verbatim>\<open>Decimal('-2500.00')\<close>).\<close>
theorem dense_rows_filter_intersection_witness:
  "(\<exists>ix. data sample_store ''sample_transactions'' = Some sample_data \<and>
         metadata sample_store ''sample_transactions'' = Some sample_column_types \<and>
         indexes sample_store ''sample_transactions'' = Some ix \<and>
         create_indexes stub_externals sample_data sample_column_types = Inr ix) \<and>
   frame_ok sample_data \<and>
   set (columns sample_data) \<subseteq> set (map fst sample_column_types) \<and>
   query_by_criteria sample_store ''sample_transactions''
       [(''Category'', StrV ''Expense''), (''Amount'', NumV (FDec True 25 2))] =
     Inr \<lparr> findex = [1],
           fcols = [(''Date'', [DateV (Date 2023 2 20)]),
                    (''Amount'', [NumV (FDec True 250000 (- 2))]),
                    (''Category'', [StrV ''Expense'']),
                    (''Description'', [StrV ''Office Supplies''])] \<rparr>"
proof -
  from add_dataset_ok[OF sample_registered] obtain ix
    where ci: "create_indexes stub_externals sample_data sample_column_types = Inr ix"
      and d: "data sample_store ''sample_transactions'' = Some sample_data"
      and m: "metadata sample_store ''sample_transactions'' = Some sample_column_types"
      and i: "indexes sample_store ''sample_transactions'' = Some ix" by blast
  have "query_by_criteria sample_store ''sample_transactions''
       [(''Category'', StrV ''Expense''), (''Amount'', NumV (FDec True 25 2))] =
     Inr \<lparr> findex = [1],
           fcols = [(''Date'', [DateV (Date 2023 2 20)]),
                    (''Amount'', [NumV (FDec True 250000 (- 2))]),
                    (''Category'', [StrV ''Expense'']),
                    (''Description'', [StrV ''Office Supplies''])] \<rparr>"
    using dense_rows_filter_intersection[OF d m i ci sample_frame_ok sample_typed,
        of "[(''Category'', StrV ''Expense''), (''Amount'', NumV (FDec True 25 2))]"]
    by (simp add: iloc_def len_frame_def sample_data_def sample_column_types_def columns_def
          row_matches_def upt_rec dec_val_def)
  with ci d m i sample_frame_ok sample_typed show ?thesis by blast
qed

text \<open>Claim C6 fails on a frame whose row labels are not 0, 1, 2, ... in order, and on a
  column without a type entry; \<open>add_dataset\<close> registers both without an error.  The
  equality scan collects the labels of the matching rows, the index lookups collect
  their positions, and the result is materialized by position.  On the sample rows in
  reverse order (labels 2, 1, 0) the filter Amount = 999.99 matches the first row only,
  whose label is 2, and the row returned is the one at position 2, whose amount is
  1234.56.  On the sample frame registered without a type for \<^verbatim>\<open>Description\<close>, a filter
  on that column raises \<^verbatim>\<open>KeyError\<close>.\<close>
theorem scan_labels_read_as_positions:
  "add_dataset stub_externals ''reversed'' reversed_data sample_column_types (init_store ()) =
     (None, reversed_store) \<and>
   query_by_criteria reversed_store ''reversed'' [(''Amount'', NumV (FDec False 99999 (- 2)))] =
     Inr \<lparr> findex = [0],
           fcols = [(''Date'', [DateV (Date 2023 1 15)]),
                    (''Amount'', [NumV (FDec False 123456 (- 2))]),
                    (''Category'', [StrV ''Revenue'']),
                    (''Description'', [StrV ''Sales''])] \<rparr> \<and>
   \<not> py_eq (NumV (FDec False 123456 (- 2))) (NumV (FDec False 99999 (- 2))) \<and>
   add_dataset stub_externals ''sample_transactions'' sample_data partial_column_types (init_store ()) =
     (None, partly_typed_store) \<and>
   query_by_criteria partly_typed_store ''sample_transactions'' [(''Description'', StrV ''Sales'')] =
     Inl (KeyError ''Description'')"
proof (intro conjI)
  show r: "add_dataset stub_externals ''reversed'' reversed_data sample_column_types (init_store ()) =
     (None, reversed_store)"
    by (simp add: reversed_store_def add_dataset_def create_indexes_def reversed_data_def
        sample_column_types_def stub_externals_def getitem_def Let_def split: prod.splits)
  from add_dataset_ok[OF r] obtain ix
    where d: "data reversed_store ''reversed'' = Some reversed_data"
      and m: "metadata reversed_store ''reversed'' = Some sample_column_types"
      and i: "indexes reversed_store ''reversed'' = Some ix" by blast
  have s: "scan_labels reversed_data
             [NumV (FDec False 99999 (- 2)), NumV (FDec True 250000 (- 2)), NumV (FDec False 123456 (- 2))]
             (NumV (FDec False 99999 (- 2))) = {2}"
    by (simp add: scan_labels_def reversed_data_def dec_val_def)
  have "filter_loop reversed_data (Some sample_column_types) (Some ix) ''reversed''
          [(''Amount'', NumV (FDec False 99999 (- 2)))] {0..<len_frame reversed_data} = Inr {2}"
    using s by (simp add: columns_def getitem_def sample_column_types_def len_frame_def)
       (auto simp: reversed_data_def)
  then show "query_by_criteria reversed_store ''reversed'' [(''Amount'', NumV (FDec False 99999 (- 2)))] =
     Inr \<lparr> findex = [0],
           fcols = [(''Date'', [DateV (Date 2023 1 15)]),
                    (''Amount'', [NumV (FDec False 123456 (- 2))]),
                    (''Category'', [StrV ''Revenue'']),
                    (''Description'', [StrV ''Sales''])] \<rparr>"
    by (simp add: query_by_criteria_def d m i iloc_def reversed_data_def)
  show "\<not> py_eq (NumV (FDec False 123456 (- 2))) (NumV (FDec False 99999 (- 2)))"
    by (simp add: dec_val_def)
  show p: "add_dataset stub_externals ''sample_transactions'' sample_data partial_column_types
             (init_store ()) = (None, partly_typed_store)"
    by (simp add: partly_typed_store_def add_dataset_def create_indexes_def sample_data_def
        partial_column_types_def stub_externals_def getitem_def Let_def split: prod.splits)
  from add_dataset_ok[OF p] obtain ix'
    where d': "data partly_typed_store ''sample_transactions'' = Some sample_data"
      and m': "metadata partly_typed_store ''sample_transactions'' = Some partial_column_types"
      and i': "indexes partly_typed_store ''sample_transactions'' = Some ix'" by blast
  show "query_by_criteria partly_typed_store ''sample_transactions'' [(''Description'', StrV ''Sales'')] =
     Inl (KeyError ''Description'')"
    by (simp add: query_by_criteria_def d' m' i' columns_def sample_data_def partial_column_types_def)
qed


text \<open>Claim C10.  \<open>query_by_criteria\<close> skips every filter whose column is not a column of
  the dataset: the result is that of the remaining filters, no error is raised for it, and
  a filter mapping with unknown columns only returns every row of the dataset.\<close>
theorem unknown_filter_columns_ignored:
  assumes "data st name = Some df"
  shows "query_by_criteria st name filters =
           query_by_criteria st name (filter (\<lambda>(col, v). col \<in> set (columns df)) filters) \<and>
         (list_all (\<lambda>(col, v). col \<notin> set (columns df)) filters \<longrightarrow>
            query_by_criteria st name filters =
              Inr (if len_frame df = 0 then empty_like df else iloc df [0..<len_frame df]) \<and>
            (frame_ok df \<longrightarrow> query_by_criteria st name filters = Inr df))"
proof (intro conjI impI)
  show "query_by_criteria st name filters =
           query_by_criteria st name (filter (\<lambda>(col, v). col \<in> set (columns df)) filters)"
    using filter_loop_drop_unknown[of df _ _ name filters]
    by (simp add: query_by_criteria_def assms)
  assume u: "list_all (\<lambda>(col, v). col \<notin> set (columns df)) filters"
  have fl: "filter_loop df (metadata st name) (indexes st name) name filters {0..<len_frame df} =
        Inr {i \<in> {0..<len_frame df}. True}"
    using filter_loop_unknown[OF u] by auto
  have q: "query_by_criteria st name filters = Inr (iloc df (filter (\<lambda>i. True) [0..<len_frame df]))"
    by (rule query_result_ids[OF assms fl])
  then show "query_by_criteria st name filters =
      Inr (if len_frame df = 0 then empty_like df else iloc df [0..<len_frame df])"
    by (simp add: empty_like_iloc)
  assume "frame_ok df"
  with q show "query_by_criteria st name filters = Inr df"
    by (simp add: iloc_all)
qed

text \<open>The theorem of C10 at the sample dataset with two unknown columns.\<close>
theorem unknown_filter_columns_ignored_witness:
  "data sample_store ''sample_transactions'' = Some sample_data \<and>
   list_all (\<lambda>(col, v). col \<notin> set (columns sample_data))
     [(''Region'', StrV ''EU''), (''Owner'', Null)] \<and>
   frame_ok sample_data \<and>
   query_by_criteria sample_store ''sample_transactions''
     [(''Region'', StrV ''EU''), (''Owner'', Null)] = Inr sample_data"
proof -
  have d: "data sample_store ''sample_transactions'' = Some sample_data"
    using add_dataset_ok[OF sample_registered] by blast
  have u: "list_all (\<lambda>(col, v). col \<notin> set (columns sample_data))
     [(''Region'', StrV ''EU''), (''Owner'', Null)]"
    by (simp add: sample_data_def columns_def)
  from unknown_filter_columns_ignored[OF d, of "[(''Region'', StrV ''EU''), (''Owner'', Null)]"]
    d u sample_frame_ok
  show ?thesis by blast
qed

text \<open>Claim C4, as stated, fails for \<open>get_dataset_info\<close>: on a name that is not
  registered it returns the empty dictionary, not an error.\<close>
theorem unregistered_dataset_counterexample:
  "data (init_store ()) ''ghost'' = None \<and>
   get_dataset_info (init_store ()) ''ghost'' = Inr EmptyDict"
  by (simp add: init_store_def get_dataset_info_def)

text \<open>Claim C4, amended.  On a name that is not registered, \<open>query_by_criteria\<close> and
  \<open>aggregate_data\<close> fail with the dataset-not-found error, and \<open>get_dataset_info\<close>
  returns the empty dictionary.\<close>
theorem unregistered_dataset:
  assumes "data st name = None"
  shows "query_by_criteria st name filters = Inl (DatasetNotFound name) \<and>
         aggregate_data ext st name group_by ms = Inl (DatasetNotFound name) \<and>
         get_dataset_info st name = Inr EmptyDict"
  using assms by (simp add: query_by_criteria_def aggregate_data_def get_dataset_info_def)

text \<open>The amended C4 at the sample store and a name it does not hold.\<close>
theorem unregistered_dataset_witness:
  "data sample_store ''ghost'' = None \<and>
   query_by_criteria sample_store ''ghost'' [(''Date'', DateV (Date 2023 1 15))] =
     Inl (DatasetNotFound ''ghost'') \<and>
   aggregate_data stub_externals sample_store ''ghost'' [''Category''] [''Amount''] =
     Inl (DatasetNotFound ''ghost'') \<and>
   get_dataset_info sample_store ''ghost'' = Inr EmptyDict"
proof -
  have d: "data sample_store ''ghost'' = None"
    by (simp add: sample_store_def add_dataset_def create_indexes_def sample_data_def
        sample_column_types_def stub_externals_def getitem_def Let_def init_store_def
        split: prod.splits)
  from unregistered_dataset[OF d] d show ?thesis by blast
qed

text \<open>Claim C9.  On a registered dataset, \<open>aggregate_data\<close> fails with the
  missing-columns error whenever a group-by or measure column is absent; the error lists
  the absent columns of both lists, each of them, and it is the result whatever the
  aggregation tail would compute.\<close>
theorem aggregate_missing_columns:
  assumes "data st name = Some df"
    and "\<exists>col \<in> set group_by \<union> set ms. col \<notin> set (columns df)"
  shows "aggregate_data ext st name group_by ms =
           Inl (MissingColumns (filter (\<lambda>col. col \<notin> set (columns df)) group_by)
                               (filter (\<lambda>col. col \<notin> set (columns df)) ms)) \<and>
         (\<forall>col. col \<notin> set (columns df) \<longrightarrow>
            (col \<in> set group_by \<longrightarrow> col \<in> set (filter (\<lambda>col. col \<notin> set (columns df)) group_by)) \<and>
            (col \<in> set ms \<longrightarrow> col \<in> set (filter (\<lambda>col. col \<notin> set (columns df)) ms)))"
proof -
  from assms(2) have "filter (\<lambda>col. col \<notin> set (columns df)) group_by \<noteq> [] \<or>
      filter (\<lambda>col. col \<notin> set (columns df)) ms \<noteq> []"
    by (auto simp: filter_empty_conv)
  then show ?thesis
    by (auto simp: aggregate_data_def assms(1) Let_def)
qed

text \<open>The theorem of C9 at the sample dataset: one absent group-by column and two absent
  measure columns.\<close>
theorem aggregate_missing_columns_witness:
  "data sample_store ''sample_transactions'' = Some sample_data \<and>
   (\<exists>col \<in> set [''Category'', ''Region''] \<union> set [''Amount'', ''Tax'', ''Fee'']. col \<notin> set (columns sample_data)) \<and>
   aggregate_data stub_externals sample_store ''sample_transactions''
       [''Category'', ''Region''] [''Amount'', ''Tax'', ''Fee''] =
     Inl (MissingColumns [''Region''] [''Tax'', ''Fee''])"
proof -
  have d: "data sample_store ''sample_transactions'' = Some sample_data"
    using add_dataset_ok[OF sample_registered] by blast
  have m: "\<exists>col \<in> set [''Category'', ''Region''] \<union> set [''Amount'', ''Tax'', ''Fee''].
             col \<notin> set (columns sample_data)"
    by (simp add: sample_data_def columns_def)
  from aggregate_missing_columns[OF d m, of stub_externals] d m
  show ?thesis by (simp add: sample_data_def columns_def)
qed

text \<open>Claim C8 fails when the handler's \<^verbatim>\<open>print\<close> raises.  \<open>query_sql\<close> returns the
  frame of a query that the backend answers; when the backend fails and the error line
  is printed, it returns the empty frame; when the backend fails and printing the error
  line raises, that exception leaves \<open>query_sql\<close>.\<close>
theorem query_sql_raises_when_print_fails:
  "(\<forall>df db. read_sql_query ext query (sqlite_conn st) = (Inr df, db) \<longrightarrow>
       fst (query_sql ext query st) = Inr df) \<and>
   (\<forall>e db. read_sql_query ext query (sqlite_conn st) = (Inl e, db) \<longrightarrow>
       print_query_error ext e = None \<longrightarrow>
       fst (query_sql ext query st) = Inr empty_frame) \<and>
   (\<forall>e db e'. read_sql_query ext query (sqlite_conn st) = (Inl e, db) \<longrightarrow>
       print_query_error ext e = Some e' \<longrightarrow>
       fst (query_sql ext query st) = Inl e')"
  by (auto simp: query_sql_def split: prod.splits sum.splits)

text \<open>The theorem of C8 at a query with a letter outside ASCII, on a failing backend and
  a standard output that encodes ASCII only: \<open>query_sql\<close> raises
  \<^verbatim>\<open>UnicodeEncodeError\<close>.\<close>
theorem query_sql_raises_when_print_fails_witness:
  "read_sql_query ascii_externals (''SELECT * FROM caf'' @ [CHR 0xE9]) (sqlite_conn sample_store) =
     (Inl (DatabaseError (''SELECT * FROM caf'' @ [CHR 0xE9])), ()) \<and>
   print_query_error ascii_externals (DatabaseError (''SELECT * FROM caf'' @ [CHR 0xE9])) =
     Some UnicodeEncodeError \<and>
   fst (query_sql ascii_externals (''SELECT * FROM caf'' @ [CHR 0xE9]) sample_store) =
     Inl UnicodeEncodeError"
proof -
  have r: "read_sql_query ascii_externals (''SELECT * FROM caf'' @ [CHR 0xE9]) (sqlite_conn sample_store) =
     (Inl (DatabaseError (''SELECT * FROM caf'' @ [CHR 0xE9])), ())"
    by (simp add: ascii_externals_def stub_externals_def)
  have p: "print_query_error ascii_externals (DatabaseError (''SELECT * FROM caf'' @ [CHR 0xE9])) =
     Some UnicodeEncodeError"
    by (simp add: ascii_externals_def ascii_stdout_def)
  from query_sql_raises_when_print_fails[of ascii_externals "''SELECT * FROM caf'' @ [CHR 0xE9]" sample_store]
    r p
  show ?thesis by blast
qed

text \<open>Claim C2.  The store has no range query.  The sorted numeric index that
  \<open>create_indexes\<close> builds is read by no query: replacing it by anything leaves every
  result of \<open>query_by_criteria\<close> unchanged, and a filter on a \<^verbatim>\<open>Number\<close> column is an
  equality scan.\<close>
theorem numeric_index_never_read:
  "query_by_criteria (st\<lparr> indexes := (indexes st)(name \<mapsto> ix\<lparr> numeric_columns := nc \<rparr>) \<rparr>) name' filters =
   query_by_criteria (st\<lparr> indexes := (indexes st)(name \<mapsto> ix) \<rparr>) name' filters"
proof (cases "data st name'")
  case None
  then show ?thesis by (simp add: query_by_criteria_def)
next
  case (Some df)
  have "filter_loop df (metadata st name') (((indexes st)(name \<mapsto> ix\<lparr> numeric_columns := nc \<rparr>)) name')
          name' filters {0..<len_frame df} =
        filter_loop df (metadata st name') (((indexes st)(name \<mapsto> ix)) name')
          name' filters {0..<len_frame df}"
    by (rule filter_loop_index_cong) (simp_all add: date_columns_of_def category_columns_of_def)
  with Some show ?thesis by (simp add: query_by_criteria_def)
qed

lemma replace_delete: "replace c [] s = filter (\<lambda>x. x \<noteq> c) s"
  by (induction s) (simp_all add: replace_def)

lemma replace_single: "replace c [d] s = map (\<lambda>x. if x = c then d else x) s"
  by (induction s) (simp_all add: replace_def)

lemma keep_char_dot: "keep_char (CHR ''.'')"
  by (simp add: keep_char_def)

section \<open>Claims about the amount parser\<close>

text \<open>Claim C5.  The generic cleaning of \<open>clean_and_parse_number\<close> follows the separator
  heuristic for every string: with both a dot and a comma the dots are removed and the
  commas become the decimal point (European reading); with commas only, the commas are
  stripped; otherwise the text is parsed as cleaned, its separators unchanged.  In
  particular \<^verbatim>\<open>"1.234,56"\<close> parses to 1234.56.\<close>
theorem separator_heuristic:
  "clean_and_parse_number s =
     (let t = strip s
      in if t = [] then None
         else if CHR ''.'' \<in> set t \<and> CHR '','' \<in> set t then
           py_Decimal (filter keep_char
              (map (\<lambda>c. if c = CHR '','' then CHR ''.'' else c) (filter (\<lambda>c. c \<noteq> CHR ''.'') t)))
         else if CHR '','' \<in> set t then py_Decimal (filter (\<lambda>c. c \<noteq> CHR '','') t)
         else py_Decimal (filter keep_char t)) \<and>
   parse_amount fmul (RStr ''1.234,56'') = Inr (Some (Finite (FDec False 123456 (- 2)))) \<and>
   dec_val (FDec False 123456 (- 2)) = 123456 / 100"
proof (intro conjI)
  show "clean_and_parse_number s =
     (let t = strip s
      in if t = [] then None
         else if CHR ''.'' \<in> set t \<and> CHR '','' \<in> set t then
           py_Decimal (filter keep_char
              (map (\<lambda>c. if c = CHR '','' then CHR ''.'' else c) (filter (\<lambda>c. c \<noteq> CHR ''.'') t)))
         else if CHR '','' \<in> set t then py_Decimal (filter (\<lambda>c. c \<noteq> CHR '','') t)
         else py_Decimal (filter keep_char t))"
    by (simp add: clean_and_parse_number_def cleaned_text_def Let_def keep_char_dot
          replace_delete replace_single)
  show "parse_amount fmul (RStr ''1.234,56'') = Inr (Some (Finite (FDec False 123456 (- 2))))"
    by code_simp
  show "dec_val (FDec False 123456 (- 2)) = 123456 / 100"
    by (simp add: dec_val_def)
qed

text \<open>Claim C1.  The first two amount vectors of the specification fail on the code:
  \<^verbatim>\<open>"$1,234.56"\<close> and \<^verbatim>\<open>"(2,500.00)"\<close> contain a dot and a comma, so they are read in the
  European convention and give 1.23456 and -2.50000.  The abbreviated \<^verbatim>\<open>"1.5M"\<close> is the
  decimal of \<^verbatim>\<open>str(float("1.5") * 1000000)\<close>, which is \<^verbatim>\<open>"1500000.0"\<close>, of value
  1500000.\<close>
theorem us_amounts_misread:
  "parse_amount fmul (RStr ''$1,234.56'') = Inr (Some (Finite (FDec False 123456 (- 5)))) \<and>
   dec_val (FDec False 123456 (- 5)) = 123456 / 100000 \<and>
   parse_amount fmul (RStr ''(2,500.00)'') = Inr (Some (Finite (FDec True 250000 (- 5)))) \<and>
   dec_val (FDec True 250000 (- 5)) = - (5 / 2) \<and>
   parse_amount fmul (RStr ''1.5M'') = Inr (py_Decimal (fmul ''1.5'' 1000000)) \<and>
   py_Decimal ''1500000.0'' = Some (Finite (FDec False 15000000 (- 1))) \<and>
   dec_val (FDec False 15000000 (- 1)) = 1500000"
proof (intro conjI)
  show "parse_amount fmul (RStr ''$1,234.56'') = Inr (Some (Finite (FDec False 123456 (- 5))))"
    by code_simp
  show "parse_amount fmul (RStr ''(2,500.00)'') = Inr (Some (Finite (FDec True 250000 (- 5))))"
    by code_simp
  show "parse_amount fmul (RStr ''1.5M'') = Inr (py_Decimal (fmul ''1.5'' 1000000))"
    by code_simp
  show "py_Decimal ''1500000.0'' = Some (Finite (FDec False 15000000 (- 1)))"
    by code_simp
qed (simp_all add: dec_val_def)

section \<open>Claims about the date parser\<close>

text \<open>Claim C3.  The day-first reading is never taken.  In the \<^verbatim>\<open>M/D/YYYY\<close> rule both
  branches of the heuristic build \<^verbatim>\<open>date(year, month, day)\<close> with the first group as the
  month, so a first group above 12 makes the rule fail and the whole parse returns no
  date, as for \<^verbatim>\<open>"31/12/2023"\<close>; with a first group up to 12 the date is read
  month-first.\<close>

theorem first_group_above_12_gives_no_date:
  "(re_match date_mm_dd_yyyy s = Some m \<longrightarrow> 12 < nat_of_digits (group m 1) \<longrightarrow>
      try_mm_dd_yyyy s = None) \<and>
   parse_date (RStr ''31/12/2023'') = None \<and>
   parse_date (RStr ''13/01/2024'') = None \<and>
   parse_date (RStr ''25/6/2024'') = None \<and>
   parse_date (RStr ''12/31/2023'') = Some (Date 2023 12 31) \<and>
   parse_date (RStr ''03/04/2024'') = Some (Date 2024 3 4)"
proof (intro conjI impI)
  show "parse_date (RStr ''31/12/2023'') = None" by code_simp
  show "parse_date (RStr ''13/01/2024'') = None" by code_simp
  show "parse_date (RStr ''25/6/2024'') = None" by code_simp
  show "parse_date (RStr ''12/31/2023'') = Some (Date 2023 12 31)" by code_simp
  show "parse_date (RStr ''03/04/2024'') = Some (Date 2024 3 4)" by code_simp
next
  assume "re_match date_mm_dd_yyyy s = Some m" and "12 < nat_of_digits (group m 1)"
  then show "try_mm_dd_yyyy s = None"
    by (simp add: try_mm_dd_yyyy_def mk_date_def)
qed

text \<open>The theorem of C3 at \<^verbatim>\<open>"31/12/2023"\<close>: the rule matches with the groups 31, 12 and
  2023, and gives no date.\<close>

theorem first_group_above_12_gives_no_date_witness:
  "re_match date_mm_dd_yyyy ''31/12/2023'' = Some [(3, ''2023''), (2, ''12''), (1, ''31'')] \<and>
   12 < nat_of_digits (group [(3, ''2023''), (2, ''12''), (1, ''31'')] 1) \<and>
   try_mm_dd_yyyy ''31/12/2023'' = None"
proof -
  have a: "re_match date_mm_dd_yyyy ''31/12/2023'' = Some [(3, ''2023''), (2, ''12''), (1, ''31'')]"
    by code_simp
  have b: "12 < nat_of_digits (group [(3, ''2023''), (2, ''12''), (1, ''31'')] 1)"
    by code_simp
  from first_group_above_12_gives_no_date[of "''31/12/2023''" "[(3, ''2023''), (2, ''12''), (1, ''31'')]"]
    a b show ?thesis by blast
qed

section \<open>The classifier loop\<close>










section \<open>Rounding to a double\<close>


























section \<open>Claims about the classifier\<close>




end
